theory Spec2Isabelle
  imports Main
begin

section \<open>The booking store\<close>

text \<open>
  The tables of the schema migration, with the columns the reservation code reads or
  writes. Identifiers are \<open>BIGINT\<close> columns and JavaScript numbers, modelled as
  \<open>int\<close>; instants are minutes on the local time line; a cancel token is the text of
  the \<open>UUID\<close> column. The statements are modelled as the table constraints and the
  row-level-security policies of the migration let them run.
\<close>

datatype booking_status = Pending | Confirmed | Cancelled | Completed

datatype payment_status = Unpaid | Paid | Refunded

record service =
  sv_id :: int
  sv_is_active :: bool

record staff_member =
  st_id :: int
  st_is_active :: bool

record timeslot =
  t_id :: int
  t_staff_id :: int
  t_start_ts :: int
  t_end_ts :: int
  t_is_blocked :: bool

record booking =
  b_id :: int
  b_service_id :: int
  b_staff_id :: int
  b_timeslot_id :: int
  b_customer_name :: string
  b_customer_email :: string
  b_customer_phone :: "string option"
  b_notes :: "string option"
  b_status :: booking_status
  b_payment_status :: payment_status
  b_cancel_token :: string

record db =
  services :: "service list"
  staff :: "staff_member list"
  timeslots :: "timeslot list"
  bookings :: "booking list"
  timeslots_id_seq :: int
  bookings_id_seq :: int

text \<open>An error object of the storage client: the SQLSTATE code and the message.\<close>

datatype pg_error = PgError (pg_code: string) (pg_message: string)

definition unique_violation :: "string \<Rightarrow> pg_error" where
  "unique_violation cname =
     PgError ''23505'' (''duplicate key value violates unique constraint '' @ cname)"

definition foreign_key_violation :: "string \<Rightarrow> pg_error" where
  "foreign_key_violation cname =
     PgError ''23503''
       (''insert or update on table bookings violates foreign key constraint '' @ cname)"

subsection \<open>The request of the claim operation\<close>

record booking_data =
  serviceId :: int
  staffId :: int
  timeslotId :: int
  customerName :: string
  customerEmail :: string
  customerPhone :: "string option"
  "notes" :: "string option"

subsection \<open>The insert into \<open>bookings\<close>\<close>

text \<open>
  \<open>INSERT INTO bookings (...) VALUES (...) RETURNING id, cancel_token\<close> with
  \<open>status = 'confirmed'\<close>, as \<open>createBooking\<close> issues it. The identity column takes
  the next value of its sequence (which advances whether or not the row is kept),
  \<open>payment_status\<close> takes its default and \<open>cancel_token\<close> the value \<open>uuid\<close> that
  \<open>gen_random_uuid()\<close> returns. The primary key and \<open>UNIQUE(timeslot_id)\<close> are
  checked when the row enters the indexes, the foreign keys at the end of the statement.
\<close>

definition new_booking_row :: "int \<Rightarrow> string \<Rightarrow> booking_data \<Rightarrow> booking" where
  "new_booking_row new_id uuid d =
     \<lparr> b_id = new_id,
       b_service_id = serviceId d,
       b_staff_id = staffId d,
       b_timeslot_id = timeslotId d,
       b_customer_name = customerName d,
       b_customer_email = customerEmail d,
       b_customer_phone = customerPhone d,
       b_notes = notes d,
       b_status = Confirmed,
       b_payment_status = Unpaid,
       b_cancel_token = uuid \<rparr>"

definition insert_booking :: "string \<Rightarrow> booking_data \<Rightarrow> db \<Rightarrow> (pg_error + booking) \<times> db" where
  "insert_booking uuid d s =
     (let new_id = bookings_id_seq s + 1;
          s1 = s\<lparr>bookings_id_seq := new_id\<rparr>;
          row = new_booking_row new_id uuid d
      in if new_id \<in> set (map b_id (bookings s))
           then (Inl (unique_violation ''bookings_pkey''), s1)
         else if timeslotId d \<in> set (map b_timeslot_id (bookings s))
           then (Inl (unique_violation ''bookings_timeslot_id_key''), s1)
         else if serviceId d \<notin> set (map sv_id (services s))
           then (Inl (foreign_key_violation ''bookings_service_id_fkey''), s1)
         else if staffId d \<notin> set (map st_id (staff s))
           then (Inl (foreign_key_violation ''bookings_staff_id_fkey''), s1)
         else if timeslotId d \<notin> set (map t_id (timeslots s))
           then (Inl (foreign_key_violation ''bookings_timeslot_id_fkey''), s1)
         else (Inr row, s1\<lparr>bookings := bookings s @ [row]\<rparr>))"

subsection \<open>Who runs a statement\<close>

text \<open>
  The client of the application is created with the anonymous key, so the statements of
  the client API run as \<open>Anon\<close>; the migration and the shop's own tools run with a
  role that row level security does not bind. Row level security is enabled on
  \<open>bookings\<close> with a policy for \<open>INSERT\<close> (\<open>WITH CHECK (true)\<close>) and one for
  \<open>SELECT\<close> (\<open>USING (true)\<close>), both for the anonymous role, and with no policy for
  \<open>UPDATE\<close>: an update by the anonymous role finds no row, without an error.
\<close>

datatype role = Anon | Service_role

definition client_role :: role where
  "client_role = Anon"

definition bookings_select_policy :: "role \<Rightarrow> booking \<Rightarrow> bool" where
  "bookings_select_policy r b = True"

definition bookings_update_policy :: "role \<Rightarrow> booking \<Rightarrow> bool" where
  "bookings_update_policy r b = (r = Service_role)"

subsection \<open>The values of the filters\<close>

text \<open>
  A filter \<open>id = ...\<close> reads its value as a \<open>BIGINT\<close> and a filter
  \<open>cancel_token = ...\<close> reads its value as a \<open>UUID\<close>; a value that cannot be read
  makes the statement fail. A JavaScript number from \<open>1e21\<close> on is written with an
  exponent. The text of a UUID is sixteen bytes of two hexadecimal digits each, in
  either case, optionally inside braces, with an optional hyphen after every second
  byte; two texts are the same token when they give the same bytes.
\<close>

definition in_bigint :: "int \<Rightarrow> bool" where
  "in_bigint i = (- 9223372036854775808 \<le> i \<and> i \<le> 9223372036854775807)"

definition bigint_in :: "int \<Rightarrow> pg_error + int" where
  "bigint_in i =
     (if in_bigint i then Inr i
      else if 1000000000000000000000 \<le> \<bar>i\<bar>
        then Inl (PgError ''22P02'' ''invalid input syntax for type bigint'')
      else Inl (PgError ''22003'' ''value is out of range for type bigint''))"

definition hex_value :: "char \<Rightarrow> nat option" where
  "hex_value c =
     (let n = (of_char c :: nat)
      in if 48 \<le> n \<and> n \<le> 57 then Some (n - 48)
         else if 97 \<le> n \<and> n \<le> 102 then Some (n - 87)
         else if 65 \<le> n \<and> n \<le> 70 then Some (n - 55)
         else None)"

text \<open>\<open>uuid_bytes n src\<close> reads the last \<open>n\<close> of the sixteen bytes and returns the rest of the text.\<close>

fun uuid_bytes :: "nat \<Rightarrow> string \<Rightarrow> (nat list \<times> string) option" where
  "uuid_bytes 0 src = Some ([], src)"
| "uuid_bytes (Suc n) (a # b # src) =
     (case hex_value a of
        None \<Rightarrow> None
      | Some x \<Rightarrow>
          (case hex_value b of
             None \<Rightarrow> None
           | Some y \<Rightarrow>
               (case uuid_bytes n
                       (if even n \<and> 0 < n \<and> take 1 src = ''-'' then drop 1 src else src) of
                  None \<Rightarrow> None
                | Some (bytes, rest) \<Rightarrow> Some ((16 * x + y) # bytes, rest))))"
| "uuid_bytes (Suc n) src = None"

definition uuid_in :: "string \<Rightarrow> nat list option" where
  "uuid_in source =
     (if take 1 source = ''{''
      then (case uuid_bytes 16 (drop 1 source) of
              None \<Rightarrow> None
            | Some (bytes, rest) \<Rightarrow> if rest = ''}'' then Some bytes else None)
      else (case uuid_bytes 16 source of
              None \<Rightarrow> None
            | Some (bytes, rest) \<Rightarrow> if rest = [] then Some bytes else None))"

subsection \<open>The select and the update of \<open>bookings\<close>\<close>

text \<open>
  \<open>SELECT * FROM bookings WHERE id = ... AND cancel_token = ...\<close> and
  \<open>UPDATE bookings SET status = ... WHERE id = ... AND cancel_token = ...\<close>, run by a
  role: the rows are those that the policy of the role lets it see, with the identifier
  and the token of the filters.
\<close>

definition select_bookings :: "role \<Rightarrow> int \<Rightarrow> string \<Rightarrow> db \<Rightarrow> pg_error + booking list" where
  "select_bookings r bookingId' cancelToken' s =
     (case bigint_in bookingId' of
        Inl err \<Rightarrow> Inl err
      | Inr i \<Rightarrow>
          (case uuid_in cancelToken' of
             None \<Rightarrow> Inl (PgError ''22P02'' ''invalid input syntax for type uuid'')
           | Some u \<Rightarrow>
               Inr (filter (\<lambda>b. bookings_select_policy r b \<and> b_id b = i \<and>
                                uuid_in (b_cancel_token b) = Some u)
                      (bookings s))))"

definition update_bookings_status ::
  "role \<Rightarrow> booking_status \<Rightarrow> int \<Rightarrow> string \<Rightarrow> db \<Rightarrow> pg_error + db" where
  "update_bookings_status r new_status bookingId' cancelToken' s =
     (case bigint_in bookingId' of
        Inl err \<Rightarrow> Inl err
      | Inr i \<Rightarrow>
          (case uuid_in cancelToken' of
             None \<Rightarrow> Inl (PgError ''22P02'' ''invalid input syntax for type uuid'')
           | Some u \<Rightarrow>
               Inr (s\<lparr>bookings :=
                        map (\<lambda>b. if bookings_update_policy r b \<and> b_id b = i \<and>
                                    uuid_in (b_cancel_token b) = Some u
                                 then b\<lparr>b_status := new_status\<rparr> else b)
                            (bookings s)\<rparr>)))"

section \<open>The create-booking function\<close>

text \<open>
  \<open>BookingSchema\<close> of the serverless function. Each issue is represented by its path,
  the name of the offending field, in the order of the schema's keys. The syntax check
  of \<open>z.string().email()\<close> belongs to the validation library and is the parameter
  \<open>is_email\<close>; \<open>min\<close> and \<open>max\<close> count the characters of the string.
\<close>

definition BookingSchema :: "(string \<Rightarrow> bool) \<Rightarrow> booking_data \<Rightarrow> string list" where
  "BookingSchema is_email d =
     (if 0 < serviceId d then [] else [''serviceId'']) @
     (if 0 < staffId d then [] else [''staffId'']) @
     (if 0 < timeslotId d then [] else [''timeslotId'']) @
     (if 2 \<le> length (customerName d) \<and> length (customerName d) \<le> 100
        then [] else [''customerName'']) @
     (if is_email (customerEmail d) then [] else [''customerEmail'']) @
     (case notes d of None \<Rightarrow> [] | Some n \<Rightarrow> if length n \<le> 500 then [] else [''notes''])"

text \<open>\<open>bookingFormSchema\<close> of the form: the same checks without the upper bound on the name.\<close>

definition bookingFormSchema :: "(string \<Rightarrow> bool) \<Rightarrow> booking_data \<Rightarrow> string list" where
  "bookingFormSchema is_email d =
     (if 0 < serviceId d then [] else [''serviceId'']) @
     (if 0 < staffId d then [] else [''staffId'']) @
     (if 0 < timeslotId d then [] else [''timeslotId'']) @
     (if 2 \<le> length (customerName d) then [] else [''customerName'']) @
     (if is_email (customerEmail d) then [] else [''customerEmail'']) @
     (case notes d of None \<Rightarrow> [] | Some n \<Rightarrow> if length n \<le> 500 then [] else [''notes''])"

datatype http_body =
    EmptyBody
  | ErrorBody string
  | InvalidBody string "string list"
  | SuccessBody int string string

record http_response =
  statusCode :: nat
  body :: http_body

record http_event =
  httpMethod :: string
  event_body :: booking_data

text \<open>
  The handler, on an event whose body is the JSON text of a request, as
  \<open>createBooking\<close> posts it. \<open>mockBookingId\<close> and \<open>rnd\<close> are the two values it
  draws from \<open>Math.random()\<close>: the floored number and the base-36 suffix of the
  token. The e-mails it then sends sit inside their own \<open>try\<close>/\<open>catch\<close> and change
  neither the response nor the store, which the handler never touches.
\<close>

definition handler :: "(string \<Rightarrow> bool) \<Rightarrow> int \<Rightarrow> string \<Rightarrow> http_event \<Rightarrow> http_response" where
  "handler is_email mockBookingId rnd event =
     (if httpMethod event = ''OPTIONS'' then \<lparr>statusCode = 200, body = EmptyBody\<rparr>
      else if httpMethod event \<noteq> ''POST''
        then \<lparr>statusCode = 405, body = ErrorBody ''Method not allowed''\<rparr>
      else case BookingSchema is_email (event_body event) of
             [] \<Rightarrow> \<lparr>statusCode = 200,
                    body = SuccessBody mockBookingId (''cancel-'' @ rnd)
                             ''Booking created successfully''\<rparr>
           | issue # issues \<Rightarrow>
                  \<lparr>statusCode = 400, body = InvalidBody ''Invalid data'' (issue # issues)\<rparr>)"

section \<open>The client API\<close>

text \<open>\<open>class ApiError\<close>: the constructor's \<open>status\<close> defaults to 400.\<close>

record ApiError =
  message :: string
  status :: nat

definition new_ApiError :: "string \<Rightarrow> nat option \<Rightarrow> ApiError" where
  "new_ApiError msg st =
     \<lparr>message = msg, status = (case st of None \<Rightarrow> 400 | Some n \<Rightarrow> n)\<rparr>"

record claim_result =
  bookingId :: int
  cancelToken :: string

text \<open>
  What \<open>createBooking\<close> meets outside the store: whether the serverless function
  answers (\<open>Deployed\<close>, with the handler's two random draws) or the \<open>fetch\<close> throws or
  is answered by something else (\<open>Unreachable\<close>); an error of the storage call that
  does not come from the tables (\<open>db_fault\<close>: no connection, a time-out); the value of
  \<open>gen_random_uuid()\<close>.
\<close>

datatype netlify = Unreachable | Deployed int string

record env =
  function_env :: netlify
  db_fault :: "pg_error option"
  uuid :: string

definition slot_taken_message :: string where
  "slot_taken_message = ''This time slot has already been booked. Please select another time.''"

definition response_ok :: "http_response \<Rightarrow> bool" where
  "response_ok r = (200 \<le> statusCode r \<and> statusCode r \<le> 299)"

text \<open>The \<open>catch\<close> branch of \<open>createBooking\<close>: the direct insert.\<close>

definition createBooking_fallback ::
  "env \<Rightarrow> booking_data \<Rightarrow> db \<Rightarrow> (ApiError + claim_result) \<times> db" where
  "createBooking_fallback e d s =
     (case db_fault e of
        Some err \<Rightarrow>
          (Inl (if pg_code err = ''23505'' then new_ApiError slot_taken_message None
                else new_ApiError (pg_message err) None), s)
      | None \<Rightarrow>
          (case insert_booking (uuid e) d s of
             (Inl err, s') \<Rightarrow>
               (Inl (if pg_code err = ''23505'' then new_ApiError slot_taken_message None
                     else new_ApiError (pg_message err) None), s')
           | (Inr row, s') \<Rightarrow>
               (Inr \<lparr>bookingId = b_id row, cancelToken = b_cancel_token row\<rparr>, s')))"

definition createBooking ::
  "(string \<Rightarrow> bool) \<Rightarrow> env \<Rightarrow> booking_data \<Rightarrow> db \<Rightarrow> (ApiError + claim_result) \<times> db" where
  "createBooking is_email e d s =
     (case function_env e of
        Unreachable \<Rightarrow> createBooking_fallback e d s
      | Deployed mockBookingId rnd \<Rightarrow>
          (let response = handler is_email mockBookingId rnd
                            \<lparr>httpMethod = ''POST'', event_body = d\<rparr>
           in if response_ok response
              then (case body response of
                      SuccessBody bid tok msg \<Rightarrow>
                        (Inr \<lparr>bookingId = bid, cancelToken = tok\<rparr>, s)
                    | _ \<Rightarrow> createBooking_fallback e d s)
              else createBooking_fallback e d s))"

text \<open>
  \<open>getBooking\<close>: the select filtered by both columns, \<open>.single()\<close> reporting an error
  unless exactly one row comes back, and every error answered by \<open>null\<close>. \<open>fault\<close>
  is an error of the storage call that does not come from the statement.
\<close>

definition getBooking :: "pg_error option \<Rightarrow> int \<Rightarrow> string \<Rightarrow> db \<Rightarrow> booking option" where
  "getBooking fault bookingId' cancelToken' s =
     (case fault of
        Some err \<Rightarrow> None
      | None \<Rightarrow>
          (case select_bookings client_role bookingId' cancelToken' s of
             Inl err \<Rightarrow> None
           | Inr [b] \<Rightarrow> Some b
           | Inr _ \<Rightarrow> None))"

text \<open>
  \<open>cancelBooking\<close>: the update with \<open>status: "cancelled"\<close> under both filters, answered
  by \<open>!error\<close>. An update that changes no row is not an error of the storage client.
\<close>

definition cancelBooking :: "pg_error option \<Rightarrow> int \<Rightarrow> string \<Rightarrow> db \<Rightarrow> bool \<times> db" where
  "cancelBooking fault bookingId' cancelToken' s =
     (case fault of
        Some err \<Rightarrow> (False, s)
      | None \<Rightarrow>
          (case update_bookings_status client_role Cancelled bookingId' cancelToken' s of
             Inl err \<Rightarrow> (False, s)
           | Inr s' \<Rightarrow> (True, s')))"

section \<open>The timeslot generator\<close>

text \<open>
  \<open>INSERT INTO timeslots (staff_id, start_ts, end_ts) VALUES (...)
  ON CONFLICT (staff_id, start_ts) DO NOTHING\<close>: the identity column takes the next
  value of its sequence and \<open>is_blocked\<close> its default. A row whose staff and start
  are stored already is skipped; otherwise the primary key is checked when the row
  enters its index and the foreign key to \<open>staff\<close> at the end of the statement. The
  result is the error of the statement, if any, and the store it leaves.
\<close>

definition insert_timeslot :: "int \<Rightarrow> int \<Rightarrow> int \<Rightarrow> db \<Rightarrow> pg_error option \<times> db" where
  "insert_timeslot staff_id slot_time end_time s =
     (let new_id = timeslots_id_seq s + 1;
          s1 = s\<lparr>timeslots_id_seq := new_id\<rparr>
      in if (staff_id, slot_time) \<in> set (map (\<lambda>t. (t_staff_id t, t_start_ts t)) (timeslots s))
           then (None, s1)
         else if new_id \<in> set (map t_id (timeslots s))
           then (Some (unique_violation ''timeslots_pkey''), s1)
         else if staff_id \<notin> set (map st_id (staff s))
           then (Some (foreign_key_violation ''timeslots_staff_id_fkey''), s1)
         else (None,
               s1\<lparr>timeslots := timeslots s @
                      [\<lparr>t_id = new_id, t_staff_id = staff_id, t_start_ts = slot_time,
                        t_end_ts = end_time, t_is_blocked = False\<rparr>]\<rparr>))"

text \<open>
  The \<open>WHILE\<close> loop of one day: \<open>slot_time\<close> runs in steps of 30 minutes while it
  is before \<open>day_end\<close>. An error of an insert ends the loop, as it ends the block.
\<close>

function slot_loop :: "int \<Rightarrow> int \<Rightarrow> int \<Rightarrow> db \<Rightarrow> pg_error option \<times> db" where
  "slot_loop staff_id day_end slot_time s =
     (if slot_time < day_end
      then (case insert_timeslot staff_id slot_time (slot_time + 30) s of
              (Some err, s') \<Rightarrow> (Some err, s')
            | (None, s') \<Rightarrow> slot_loop staff_id day_end (slot_time + 30) s')
      else (None, s))"
  by pat_completeness auto
termination
  by (relation "measure (\<lambda>(staff_id, day_end, slot_time, s). nat (day_end - slot_time))") auto

text \<open>
  A date is its day number, day 0 being Thursday 1 January 1970; \<open>EXTRACT(DOW ...)\<close>
  is 0 on Sunday and 6 on Saturday. The slots of a working day start at 9:00 and stop
  before 17:00. \<open>generate_day\<close> is the body of the loop over the days for the date
  \<open>the_date\<close> that its expressions read.
\<close>

definition dow :: "int \<Rightarrow> int" where
  "dow the_date = (the_date + 4) mod 7"

definition generate_day :: "int \<Rightarrow> int \<Rightarrow> db \<Rightarrow> pg_error option \<times> db" where
  "generate_day staff_id the_date s =
     (if dow the_date \<noteq> 0 \<and> dow the_date \<noteq> 6
      then slot_loop staff_id (the_date * 1440 + 17 * 60) (the_date * 1440 + 9 * 60) s
      else (None, s))"

text \<open>
  The two \<open>FOR\<close> loops, over the dates that the iterations of the inner loop read and
  over the staff members.
\<close>

fun days_loop :: "int \<Rightarrow> int list \<Rightarrow> db \<Rightarrow> pg_error option \<times> db" where
  "days_loop staff_id [] s = (None, s)"
| "days_loop staff_id (the_date # ds) s =
     (case generate_day staff_id the_date s of
        (Some err, s') \<Rightarrow> (Some err, s')
      | (None, s') \<Rightarrow> days_loop staff_id ds s')"

fun generate_slots :: "int list \<Rightarrow> int list \<Rightarrow> db \<Rightarrow> pg_error option \<times> db" where
  "generate_slots [] ds s = (None, s)"
| "generate_slots (staff_id # ids) ds s =
     (case days_loop staff_id ds s of
        (Some err, s') \<Rightarrow> (Some err, s')
      | (None, s') \<Rightarrow> generate_slots ids ds s')"

text \<open>
  The \<open>DO\<close> block of the migration, run on the date \<open>today\<close>. The block declares a
  variable named \<open>current_date\<close> and assigns \<open>CURRENT_DATE + i days\<close> to it in each of
  the thirty iterations. A server either rejects the assignment to a variable of that
  name as a syntax error, and the block does nothing, or accepts the block, and then
  \<open>current_date\<close> in the expressions that follow is the SQL keyword, the date of the
  run: each of the thirty iterations generates the slots of \<open>today\<close>. An error inside
  the block undoes its inserts; the sequence keeps the values it has given out.
\<close>

datatype block_parse = Accepts_block | Rejects_block

definition timeslot_generation :: "block_parse \<Rightarrow> int \<Rightarrow> db \<Rightarrow> pg_error option \<times> db" where
  "timeslot_generation server today s =
     (case server of
        Rejects_block \<Rightarrow> (Some (PgError ''42601'' ''syntax error at or near current_date''), s)
      | Accepts_block \<Rightarrow>
          (case generate_slots (map st_id (filter st_is_active (staff s)))
                  (map (\<lambda>i. today) [0..29]) s of
             (Some err, s') \<Rightarrow> (Some err, s\<lparr>timeslots_id_seq := timeslots_id_seq s'\<rparr>)
           | (None, s') \<Rightarrow> (None, s')))"

section \<open>States and their properties\<close>

text \<open>
  The states the operations of the system lead to, from any state without bookings.
  Every operation issues one statement, and the storage runs statements one at a time,
  so the runs of concurrent callers are the sequences of operations.
\<close>

inductive reachable :: "db \<Rightarrow> bool" where
  initial: "bookings s = [] \<Longrightarrow> reachable s"
| claim: "reachable s \<Longrightarrow> reachable (snd (createBooking is_email e d s))"
| release: "reachable s \<Longrightarrow> reachable (snd (cancelBooking fault i tok s))"
| generation: "reachable s \<Longrightarrow> reachable (snd (timeslot_generation server today s))"

text \<open>A booking that holds its timeslot: one that is pending or confirmed.\<close>

definition holds_slot :: "booking \<Rightarrow> bool" where
  "holds_slot b = (b_status b = Pending \<or> b_status b = Confirmed)"

text \<open>No timeslot is referenced by two bookings that hold it.\<close>

definition slot_invariant :: "db \<Rightarrow> bool" where
  "slot_invariant s = distinct (map b_timeslot_id (filter holds_slot (bookings s)))"

text \<open>The constraint \<open>UNIQUE(timeslot_id)\<close> and the primary key of \<open>bookings\<close>.\<close>

definition unique_timeslot_id :: "db \<Rightarrow> bool" where
  "unique_timeslot_id s = distinct (map b_timeslot_id (bookings s))"

definition unique_booking_id :: "db \<Rightarrow> bool" where
  "unique_booking_id s = distinct (map b_id (bookings s))"

text \<open>
  A credential matches a booking when it reads as the UUID that the booking's cancel
  token is.
\<close>

definition credential_of :: "booking \<Rightarrow> string \<Rightarrow> bool" where
  "credential_of b cancelToken' =
     (uuid_in cancelToken' \<noteq> None \<and> uuid_in (b_cancel_token b) = uuid_in cancelToken')"

text \<open>
  The operations of the reservation engine and their runs. A lookup is a query: it
  returns no store.
\<close>

datatype operation =
    Claim "string \<Rightarrow> bool" env booking_data
  | Lookup "pg_error option" int string
  | Release "pg_error option" int string

fun step :: "operation \<Rightarrow> db \<Rightarrow> db" where
  "step (Claim is_email e d) s = snd (createBooking is_email e d s)"
| "step (Lookup fault i tok) s = s"
| "step (Release fault i tok) s = snd (cancelBooking fault i tok s)"

fun run :: "operation list \<Rightarrow> db \<Rightarrow> db" where
  "run [] s = s"
| "run (opn # ops) s = run ops (step opn s)"

text \<open>
  The constraint \<open>UNIQUE(staff_id, start_ts)\<close>, what the timeslot rows say, and two
  properties of a store that the identity column and the foreign key keep: no stored
  identifier is ahead of the sequence, and the staff members named are stored.
\<close>

definition slot_keys :: "db \<Rightarrow> (int \<times> int) list" where
  "slot_keys s = map (\<lambda>t. (t_staff_id t, t_start_ts t)) (timeslots s)"

definition no_duplicate_slots :: "db \<Rightarrow> bool" where
  "no_duplicate_slots s = distinct (slot_keys s)"

definition slot_content :: "db \<Rightarrow> (int \<times> int \<times> int \<times> bool) set" where
  "slot_content s =
     set (map (\<lambda>t. (t_staff_id t, t_start_ts t, t_end_ts t, t_is_blocked t)) (timeslots s))"

definition identities_given :: "db \<Rightarrow> bool" where
  "identities_given s = list_all (\<lambda>t. t_id t \<le> timeslots_id_seq s) (timeslots s)"

definition staff_stored :: "int list \<Rightarrow> db \<Rightarrow> bool" where
  "staff_stored ids s = list_all (\<lambda>staff_id. staff_id \<in> set (map st_id (staff s))) ids"

section \<open>Example states and requests\<close>

text \<open>
  One service, one staff member and the 9:00 slot of day 0, a request for that slot,
  and the two environments of \<open>createBooking\<close>: the serverless function not answering,
  and the function deployed.
\<close>

definition example_db :: db where
  "example_db =
     \<lparr> services = [\<lparr>sv_id = 1, sv_is_active = True\<rparr>],
       staff = [\<lparr>st_id = 1, st_is_active = True\<rparr>],
       timeslots = [\<lparr>t_id = 1, t_staff_id = 1, t_start_ts = 540, t_end_ts = 570,
                     t_is_blocked = False\<rparr>],
       bookings = [],
       timeslots_id_seq = 1,
       bookings_id_seq = 0 \<rparr>"

definition example_request :: booking_data where
  "example_request =
     \<lparr> serviceId = 1, staffId = 1, timeslotId = 1,
       customerName = ''Ann Lee'', customerEmail = ''ann@example.org'',
       customerPhone = None, notes = None \<rparr>"

definition direct_env :: "string \<Rightarrow> env" where
  "direct_env u = \<lparr>function_env = Unreachable, db_fault = None, uuid = u\<rparr>"

definition deployed_env :: "string \<Rightarrow> env" where
  "deployed_env u = \<lparr>function_env = Deployed 4242 ''k3x9q2m1z'', db_fault = None, uuid = u\<rparr>"

definition token1 :: string where
  "token1 = ''6f1c2a9e-7b34-4d0a-9c55-0e8b3a1d2f47''"

definition token2 :: string where
  "token2 = ''b82d4c10-3e6f-4a7b-8d21-5c9e0f3a6b18''"

text \<open>
  Another spelling of the first token: upper case, without hyphens.
\<close>

definition token1_upper :: string where
  "token1_upper = ''6F1C2A9E7B344D0A9C550E8B3A1D2F47''"

text \<open>
  A stand-in for the library's e-mail check where an example needs one, the store after
  the example request was claimed through the direct insert, and that store with the
  booking marked cancelled, or completed, by the shop.
\<close>

definition has_at :: "string \<Rightarrow> bool" where
  "has_at a = (CHR ''@'' \<in> set a)"

definition booked_db :: db where
  "booked_db = snd (createBooking has_at (direct_env token1) example_request example_db)"

definition cancelled_db :: db where
  "cancelled_db = booked_db\<lparr>bookings := map (\<lambda>b. b\<lparr>b_status := Cancelled\<rparr>) (bookings booked_db)\<rparr>"

definition completed_db :: db where
  "completed_db = booked_db\<lparr>bookings := map (\<lambda>b. b\<lparr>b_status := Completed\<rparr>) (bookings booked_db)\<rparr>"

text \<open>
  Requests that \<open>BookingSchema\<close> rejects, a request for a timeslot that does not exist,
  and an environment without connection to the storage.
\<close>

definition short_name_request :: booking_data where
  "short_name_request = example_request\<lparr>customerName := ''A''\<rparr>"

definition bad_email_request :: booking_data where
  "bad_email_request = example_request\<lparr>customerEmail := ''not-an-email''\<rparr>"

definition long_name_request :: booking_data where
  "long_name_request = example_request\<lparr>customerName := replicate 101 (CHR ''a'')\<rparr>"

definition other_slot_request :: booking_data where
  "other_slot_request = example_request\<lparr>timeslotId := 99\<rparr>"

definition offline_env :: env where
  "offline_env =
     \<lparr>function_env = Unreachable,
      db_fault = Some (PgError [] ''TypeError: Failed to fetch''),
      uuid = token2\<rparr>"

section \<open>What a run of the generator adds\<close>

text \<open>
  The (staff, start) pairs that the loops of the generator attempt to insert, following
  the loops, and what it means for a run to add a set of such pairs to a store whose
  identifiers are behind the sequence and which holds the staff members of the pairs:
  the run ends without an error, the pairs join the stored ones, the rows of the pairs
  that were not stored are new 30-minute unblocked slots, no pair is stored twice, the
  table is untouched when all pairs were stored already, and the staff table is not
  changed.
\<close>

definition fresh_rows :: "(int \<times> int) set \<Rightarrow> (int \<times> int \<times> int \<times> bool) set" where
  "fresh_rows G = (\<lambda>(staff_id, slot_time). (staff_id, slot_time, slot_time + 30, False)) ` G"

definition adds :: "(db \<Rightarrow> pg_error option \<times> db) \<Rightarrow> (int \<times> int) set \<Rightarrow> bool" where
  "adds f G =
     (\<forall>s. identities_given s \<and> fst ` G \<subseteq> set (map st_id (staff s)) \<longrightarrow>
          fst (f s) = None \<and>
          identities_given (snd (f s)) \<and>
          staff (snd (f s)) = staff s \<and>
          set (slot_keys (snd (f s))) = set (slot_keys s) \<union> G \<and>
          slot_content (snd (f s)) = slot_content s \<union> fresh_rows (G - set (slot_keys s)) \<and>
          (no_duplicate_slots s \<longrightarrow> no_duplicate_slots (snd (f s))) \<and>
          (G \<subseteq> set (slot_keys s) \<longrightarrow> timeslots (snd (f s)) = timeslots s))"

definition and_then ::
  "(db \<Rightarrow> pg_error option \<times> db) \<Rightarrow> (db \<Rightarrow> pg_error option \<times> db) \<Rightarrow> db \<Rightarrow> pg_error option \<times> db" where
  "and_then f g s = (case f s of (Some err, s') \<Rightarrow> (Some err, s') | (None, s') \<Rightarrow> g s')"

function loop_keys :: "int \<Rightarrow> int \<Rightarrow> int \<Rightarrow> (int \<times> int) set" where
  "loop_keys staff_id day_end slot_time =
     (if slot_time < day_end
      then insert (staff_id, slot_time) (loop_keys staff_id day_end (slot_time + 30))
      else {})"
  by pat_completeness auto
termination
  by (relation "measure (\<lambda>(staff_id, day_end, slot_time). nat (day_end - slot_time))") auto

definition day_keys :: "int \<Rightarrow> int \<Rightarrow> (int \<times> int) set" where
  "day_keys staff_id the_date =
     (if dow the_date \<noteq> 0 \<and> dow the_date \<noteq> 6
      then loop_keys staff_id (the_date * 1440 + 17 * 60) (the_date * 1440 + 9 * 60)
      else {})"

definition generated_keys :: "int list \<Rightarrow> int list \<Rightarrow> (int \<times> int) set" where
  "generated_keys ids ds =
     (\<Union>staff_id \<in> set ids. \<Union>the_date \<in> set ds. day_keys staff_id the_date)"

section \<open>The statements and the constraints\<close>

lemma unique_timeslot_id_slot_invariant:
  "unique_timeslot_id s \<Longrightarrow> slot_invariant s"
  by (simp add: unique_timeslot_id_def slot_invariant_def distinct_map_filter)

lemma insert_booking_cases:
  "snd (insert_booking u d s) = s\<lparr>bookings_id_seq := bookings_id_seq s + 1\<rparr> \<and>
     (\<exists>err. fst (insert_booking u d s) = Inl err)
   \<or> fst (insert_booking u d s) = Inr (new_booking_row (bookings_id_seq s + 1) u d) \<and>
     snd (insert_booking u d s) =
       s\<lparr>bookings_id_seq := bookings_id_seq s + 1,
          bookings := bookings s @ [new_booking_row (bookings_id_seq s + 1) u d]\<rparr> \<and>
     timeslotId d \<notin> set (map b_timeslot_id (bookings s)) \<and>
     bookings_id_seq s + 1 \<notin> set (map b_id (bookings s))"
  by (simp add: insert_booking_def Let_def)

lemma insert_booking_unique_timeslot_id:
  "unique_timeslot_id s \<Longrightarrow> unique_timeslot_id (snd (insert_booking u d s))"
  using insert_booking_cases [of u d s]
  by (auto simp: unique_timeslot_id_def new_booking_row_def)

lemma createBooking_fallback_store:
  "snd (createBooking_fallback e d s) = s \<or>
   snd (createBooking_fallback e d s) = snd (insert_booking (uuid e) d s)"
  by (auto simp: createBooking_fallback_def split: option.splits prod.splits sum.splits)

lemma createBooking_store:
  "snd (createBooking is_email e d s) = s \<or>
   snd (createBooking is_email e d s) = snd (insert_booking (uuid e) d s)"
  using createBooking_fallback_store [of e d s]
  by (auto simp: createBooking_def Let_def split: netlify.splits http_body.splits)

lemma createBooking_unique_timeslot_id:
  "unique_timeslot_id s \<Longrightarrow> unique_timeslot_id (snd (createBooking is_email e d s))"
  using createBooking_store [of is_email e d s] insert_booking_unique_timeslot_id [of s "uuid e" d]
  by auto

lemma update_bookings_status_anon:
  "update_bookings_status Anon st i tok s = Inr s' \<Longrightarrow> s' = s"
  by (auto simp: update_bookings_status_def bookings_update_policy_def
      split: sum.splits option.splits)

lemma cancelBooking_store: "snd (cancelBooking fault i tok s) = s"
  using update_bookings_status_anon [of Cancelled i tok s]
  by (auto simp: cancelBooking_def client_role_def split: option.splits sum.splits)

lemma insert_timeslot_bookings: "bookings (snd (insert_timeslot sid t u s)) = bookings s"
  by (simp add: insert_timeslot_def Let_def)

lemma slot_loop_bookings: "bookings (snd (slot_loop sid e t s)) = bookings s"
proof (induction sid e t s rule: slot_loop.induct)
  case (1 sid e t s)
  show ?case
  proof (cases "t < e")
    case True
    obtain r s' where i: "insert_timeslot sid t (t + 30) s = (r, s')"
      by (cases "insert_timeslot sid t (t + 30) s")
    have b: "bookings s' = bookings s"
      using insert_timeslot_bookings [of sid t "t + 30" s] i by simp
    show ?thesis
    proof (cases r)
      case None
      then show ?thesis
        using True i b "1" [OF True i [symmetric]] by simp
    next
      case (Some err)
      then show ?thesis
        using True i b by simp
    qed
  next
    case False
    then show ?thesis by simp
  qed
qed

lemma generate_day_bookings: "bookings (snd (generate_day sid d s)) = bookings s"
  by (simp add: generate_day_def slot_loop_bookings del: slot_loop.simps)

lemma days_loop_bookings: "bookings (snd (days_loop sid ds s)) = bookings s"
proof (induction ds arbitrary: s)
  case Nil
  then show ?case by simp
next
  case (Cons d ds)
  obtain r s' where g: "generate_day sid d s = (r, s')"
    by (cases "generate_day sid d s")
  have b: "bookings s' = bookings s"
    using generate_day_bookings [of sid d s] g by simp
  show ?case
    using g b Cons.IH [of s'] by (cases r) simp_all
qed

lemma generate_slots_bookings: "bookings (snd (generate_slots ids ds s)) = bookings s"
proof (induction ids arbitrary: s)
  case Nil
  then show ?case by simp
next
  case (Cons a ids)
  obtain r s' where g: "days_loop a ds s = (r, s')"
    by (cases "days_loop a ds s")
  have b: "bookings s' = bookings s"
    using days_loop_bookings [of a ds s] g by simp
  show ?case
    using g b Cons.IH [of s'] by (cases r) simp_all
qed

lemma timeslot_generation_bookings:
  "bookings (snd (timeslot_generation server today s)) = bookings s"
proof (cases server)
  case Rejects_block
  then show ?thesis by (simp add: timeslot_generation_def)
next
  case Accepts_block
  obtain r s' where g: "generate_slots (map st_id (filter st_is_active (staff s)))
      (map (\<lambda>i. today) [0..29]) s = (r, s')"
    by (cases "generate_slots (map st_id (filter st_is_active (staff s)))
      (map (\<lambda>i. today) [0..29]) s")
  have b: "bookings s' = bookings s"
    using generate_slots_bookings [of "map st_id (filter st_is_active (staff s))"
        "map (\<lambda>i. today) [0..29]" s] g by simp
  show ?thesis
    using Accepts_block g b by (cases r) (simp_all add: timeslot_generation_def)
qed

lemma reachable_unique_timeslot_id: "reachable s \<Longrightarrow> unique_timeslot_id s"
proof (induction rule: reachable.induct)
  case (initial s)
  then show ?case by (simp add: unique_timeslot_id_def)
next
  case (claim s is_email e d)
  then show ?case by (simp add: createBooking_unique_timeslot_id)
next
  case (release s fault i tok)
  then show ?case by (simp add: cancelBooking_store)
next
  case (generation s server today)
  then show ?case by (simp add: unique_timeslot_id_def timeslot_generation_bookings)
qed

section \<open>One holder per timeslot\<close>

text \<open>
  Claim C1. In every reachable state of the store no timeslot is referenced by two
  bookings that are pending or confirmed; indeed \<open>UNIQUE(timeslot_id)\<close> holds of all
  bookings. A claim leaves the store as it was or as one insert statement leaves it,
  which the constraint decides, with no query of availability before it, and the state
  after the claim satisfies the invariant again.
\<close>

theorem claim_keeps_one_holder_per_timeslot:
  "reachable s \<Longrightarrow>
     slot_invariant s \<and> unique_timeslot_id s \<and>
     (snd (createBooking is_email e d s) = s \<or>
      snd (createBooking is_email e d s) = snd (insert_booking (uuid e) d s)) \<and>
     slot_invariant (snd (createBooking is_email e d s))"
proof -
  assume r: "reachable s"
  have u: "unique_timeslot_id s"
    using r by (rule reachable_unique_timeslot_id)
  have u': "unique_timeslot_id (snd (createBooking is_email e d s))"
    using u by (rule createBooking_unique_timeslot_id)
  show ?thesis
    using u u' createBooking_store [of is_email e d s]
    by (simp add: unique_timeslot_id_slot_invariant)
qed

text \<open>Two claims of the same slot, one after the other: one booking is stored.\<close>

theorem claim_keeps_one_holder_per_timeslot_witness:
  "reachable (snd (createBooking has_at (direct_env token1) example_request example_db)) \<and>
   slot_invariant (snd (createBooking has_at (direct_env token1) example_request example_db)) \<and>
   slot_invariant
     (snd (createBooking has_at (direct_env token2) example_request
        (snd (createBooking has_at (direct_env token1) example_request example_db)))) \<and>
   map b_id (bookings
     (snd (createBooking has_at (direct_env token2) example_request
        (snd (createBooking has_at (direct_env token1) example_request example_db))))) = [1]"
proof -
  have i: "reachable example_db"
    by (rule reachable.initial) (simp add: example_db_def)
  have r: "reachable (snd (createBooking has_at (direct_env token1) example_request example_db))"
    using i by (rule reachable.claim)
  have e: "map b_id (bookings
     (snd (createBooking has_at (direct_env token2) example_request
        (snd (createBooking has_at (direct_env token1) example_request example_db))))) = [1]"
    by (simp add: createBooking_def createBooking_fallback_def insert_booking_def
        direct_env_def example_request_def example_db_def new_booking_row_def Let_def)
  show ?thesis
    using r e claim_keeps_one_holder_per_timeslot
      [OF r, of has_at "direct_env token2" example_request]
    by simp
qed

section \<open>Reading the filters\<close>

lemma uuid_in_token1:
  "uuid_in token1 = Some [111, 28, 42, 158, 123, 52, 77, 10, 156, 85, 14, 139, 58, 29, 47, 71]"
  by code_simp

lemma uuid_in_token1_upper: "uuid_in token1_upper = uuid_in token1"
  by code_simp

lemma uuid_in_token2:
  "uuid_in token2 = Some [184, 45, 76, 16, 62, 111, 74, 123, 141, 33, 92, 158, 15, 58, 107, 24]"
  by code_simp

lemma uuid_in_mock_token: "uuid_in ''cancel-k3x9q2m1z'' = None"
  by code_simp

lemma in_bigint_small: "in_bigint 1 \<and> in_bigint 7 \<and> in_bigint 2 \<and> in_bigint 4242"
  by (simp add: in_bigint_def)

lemma filter_unique_id:
  "distinct (map b_id bs) \<Longrightarrow> b \<in> set bs \<Longrightarrow>
   filter (\<lambda>x. b_id x = b_id b \<and> Q x) bs = (if Q b then [b] else [])"
proof (induction bs)
  case Nil
  then show ?case by simp
next
  case (Cons a bs)
  show ?case
  proof (cases "a = b")
    case True
    have "\<forall>x \<in> set bs. b_id x \<noteq> b_id b"
      using Cons.prems(1) True by (metis distinct.simps(2) image_eqI list.simps(9) set_map)
    then have "filter (\<lambda>x. b_id x = b_id b \<and> Q x) bs = []"
      by (simp add: filter_empty_conv)
    then show ?thesis using True by simp
  next
    case False
    then have m: "b \<in> set bs" using Cons.prems(2) by simp
    then have "b_id a \<noteq> b_id b" using Cons.prems(1) by force
    then show ?thesis using Cons.IH [OF _ m] Cons.prems(1) by simp
  qed
qed

lemma select_bookings_matching:
  "select_bookings r i tok s = Inr rows \<Longrightarrow>
   in_bigint i \<and> uuid_in tok \<noteq> None \<and>
   rows = filter (\<lambda>b. b_id b = i \<and> credential_of b tok) (bookings s)"
  by (auto simp: select_bookings_def bigint_in_def bookings_select_policy_def credential_of_def
      split: if_splits option.splits intro: filter_cong)

lemma select_bookings_Inr:
  "in_bigint i \<Longrightarrow> uuid_in tok \<noteq> None \<Longrightarrow>
   select_bookings r i tok s = Inr (filter (\<lambda>b. b_id b = i \<and> credential_of b tok) (bookings s))"
  by (auto simp: select_bookings_def bigint_in_def bookings_select_policy_def credential_of_def
      split: if_splits option.splits intro: filter_cong)

lemma getBooking_Some:
  "getBooking fault i tok s = Some b \<Longrightarrow>
   fault = None \<and> in_bigint i \<and>
   filter (\<lambda>b. b_id b = i \<and> credential_of b tok) (bookings s) = [b]"
proof -
  assume g: "getBooking fault i tok s = Some b"
  then have f: "fault = None"
    by (simp add: getBooking_def split: option.splits)
  from g f obtain rows where r: "select_bookings client_role i tok s = Inr rows"
    by (cases "select_bookings client_role i tok s") (simp_all add: getBooking_def)
  from g f r have "rows = [b]"
    by (simp add: getBooking_def split: list.splits)
  then show ?thesis
    using f select_bookings_matching [OF r] by simp
qed

lemma getBooking_Some_iff:
  assumes "unique_booking_id s"
  shows "(getBooking fault i tok s = Some b) =
         (fault = None \<and> in_bigint i \<and> b \<in> set (bookings s) \<and> b_id b = i \<and> credential_of b tok)"
proof
  assume g: "getBooking fault i tok s = Some b"
  have m: "b \<in> set (filter (\<lambda>b. b_id b = i \<and> credential_of b tok) (bookings s))"
    using getBooking_Some [OF g] by simp
  have "b \<in> set (bookings s) \<and> b_id b = i \<and> credential_of b tok"
    using m by simp
  moreover have "fault = None \<and> in_bigint i"
    using getBooking_Some [OF g] by simp
  ultimately show "fault = None \<and> in_bigint i \<and> b \<in> set (bookings s) \<and> b_id b = i \<and> credential_of b tok"
    by simp
next
  assume a: "fault = None \<and> in_bigint i \<and> b \<in> set (bookings s) \<and> b_id b = i \<and> credential_of b tok"
  then have "filter (\<lambda>x. b_id x = i \<and> credential_of x tok) (bookings s) = [b]"
    using filter_unique_id [of "bookings s" b "\<lambda>x. credential_of x tok"] assms
    by (auto simp: unique_booking_id_def)
  moreover have "uuid_in tok \<noteq> None"
    using a by (simp add: credential_of_def)
  ultimately show "getBooking fault i tok s = Some b"
    using a select_bookings_Inr [of i tok client_role s] by (simp add: getBooking_def)
qed

lemma getBooking_wrong_token:
  assumes "unique_booking_id s" "c \<in> set (bookings s)" "\<not> credential_of c tok"
  shows "getBooking fault (b_id c) tok s = None"
proof (cases "getBooking fault (b_id c) tok s")
  case None
  then show ?thesis .
next
  case (Some b)
  then have "b \<in> set (bookings s) \<and> b_id b = b_id c \<and> credential_of b tok"
    using getBooking_Some_iff [OF assms(1)] by simp
  moreover have "b = c"
    using calculation assms(1,2) by (simp add: unique_booking_id_def inj_on_def distinct_map)
  ultimately show ?thesis using assms(3) by simp
qed

lemma getBooking_absent_id:
  "j \<notin> set (map b_id (bookings s)) \<Longrightarrow> getBooking fault j tok s = None"
proof (cases "getBooking fault j tok s")
  case None
  then show ?thesis by simp
next
  case (Some b)
  assume a: "j \<notin> set (map b_id (bookings s))"
  have "b \<in> set (filter (\<lambda>b. b_id b = j \<and> credential_of b tok) (bookings s))"
    using getBooking_Some [OF Some] by simp
  then show ?thesis using a by auto
qed

lemma insert_booking_unique_booking_id:
  "unique_booking_id s \<Longrightarrow> unique_booking_id (snd (insert_booking u d s))"
  using insert_booking_cases [of u d s]
  by (auto simp: unique_booking_id_def new_booking_row_def)

lemma createBooking_unique_booking_id:
  "unique_booking_id s \<Longrightarrow> unique_booking_id (snd (createBooking is_email e d s))"
  using createBooking_store [of is_email e d s] insert_booking_unique_booking_id [of s "uuid e" d]
  by auto

lemma reachable_unique_booking_id: "reachable s \<Longrightarrow> unique_booking_id s"
proof (induction rule: reachable.induct)
  case (initial s)
  then show ?case by (simp add: unique_booking_id_def)
next
  case (claim s is_email e d)
  then show ?case by (simp add: createBooking_unique_booking_id)
next
  case (release s fault i tok)
  then show ?case by (simp add: cancelBooking_store)
next
  case (generation s server today)
  then show ?case by (simp add: unique_booking_id_def timeslot_generation_bookings)
qed

lemma booked_db_eq:
  "booked_db = example_db\<lparr>bookings_id_seq := 1, bookings := [new_booking_row 1 token1 example_request]\<rparr>"
  by (simp add: booked_db_def createBooking_def createBooking_fallback_def insert_booking_def
      direct_env_def example_request_def example_db_def Let_def)

lemma booked_db_bookings:
  "bookings booked_db = [new_booking_row 1 token1 example_request]"
  by (simp add: booked_db_eq)

lemma cancelled_db_eq:
  "cancelled_db = example_db\<lparr>bookings_id_seq := 1,
     bookings := [(new_booking_row 1 token1 example_request)\<lparr>b_status := Cancelled\<rparr>]\<rparr>"
  by (simp add: cancelled_db_def booked_db_eq)

lemma cancelled_db_bookings:
  "bookings cancelled_db = [(new_booking_row 1 token1 example_request)\<lparr>b_status := Cancelled\<rparr>]"
  by (simp add: cancelled_db_eq)

lemma completed_db_bookings:
  "bookings completed_db = [(new_booking_row 1 token1 example_request)\<lparr>b_status := Completed\<rparr>]"
  by (simp add: completed_db_def booked_db_eq)

section \<open>Lookup\<close>

text \<open>
  Claim C4. Where the primary key holds, \<open>getBooking\<close> returns a booking exactly when
  the storage call does not fail, the booking is stored under the identifier and the
  credential matches it, that is, reads as the UUID that the booking's cancel token
  is; another spelling of the token is the same credential. The identifier of a stored
  booking with a credential that does not match, and an identifier that no booking
  has, get the same answer \<open>None\<close>, the \<open>null\<close> of the source, so the answer does not
  tell whether the identifier exists.
\<close>

theorem lookup_hides_existence:
  "unique_booking_id s \<Longrightarrow>
     (getBooking fault i tok s = Some b) =
       (fault = None \<and> in_bigint i \<and> b \<in> set (bookings s) \<and> b_id b = i \<and> credential_of b tok) \<and>
     (c \<in> set (bookings s) \<and> \<not> credential_of c tok' \<longrightarrow>
        getBooking fault' (b_id c) tok' s = None) \<and>
     (j \<notin> set (map b_id (bookings s)) \<longrightarrow> getBooking fault' j tok' s = None)"
  using getBooking_Some_iff [of s fault i tok b] getBooking_wrong_token [of s c tok' fault']
    getBooking_absent_id [of j s fault' tok']
  by blast

text \<open>
  The booking of the example looked up with its token, with another spelling of it,
  with a foreign token, and under an identifier that is not stored.
\<close>

theorem lookup_hides_existence_witness:
  "unique_booking_id booked_db \<and>
   getBooking None 1 token1 booked_db = Some (new_booking_row 1 token1 example_request) \<and>
   getBooking None 1 token1_upper booked_db = Some (new_booking_row 1 token1 example_request) \<and>
   getBooking None 1 token2 booked_db = None \<and>
   getBooking None 2 token2 booked_db = None"
proof -
  have u: "unique_booking_id booked_db"
    by (simp add: unique_booking_id_def booked_db_bookings)
  have t: "\<not> credential_of (new_booking_row 1 token1 example_request) token2"
    by (simp add: credential_of_def new_booking_row_def uuid_in_token1 uuid_in_token2)
  have m: "credential_of (new_booking_row 1 token1 example_request) token1"
    by (simp add: credential_of_def new_booking_row_def uuid_in_token1)
  have m': "credential_of (new_booking_row 1 token1 example_request) token1_upper"
    by (simp add: credential_of_def new_booking_row_def uuid_in_token1_upper uuid_in_token1)
  show ?thesis
    using u t m m' in_bigint_small
      lookup_hides_existence [OF u, of None 1 token1 "new_booking_row 1 token1 example_request"
        "new_booking_row 1 token1 example_request" token2 None 2]
      lookup_hides_existence [OF u, of None 1 token1_upper "new_booking_row 1 token1 example_request"
        "new_booking_row 1 token1 example_request" token2 None 2]
    by (simp add: booked_db_bookings new_booking_row_def)
qed

lemma cancelBooking_answer:
  "fst (cancelBooking fault i tok s) = (fault = None \<and> in_bigint i \<and> uuid_in tok \<noteq> None)"
  by (auto simp: cancelBooking_def update_bookings_status_def bigint_in_def
      split: option.splits sum.splits if_splits)

lemma cancelBooking_eq:
  "cancelBooking fault i tok s = (fault = None \<and> in_bigint i \<and> uuid_in tok \<noteq> None, s)"
  using cancelBooking_answer [of fault i tok s] cancelBooking_store [of fault i tok s]
  by (cases "cancelBooking fault i tok s") simp

lemma createBooking_nth:
  "n < length (bookings s) \<Longrightarrow> bookings (snd (createBooking is_email e d s)) ! n = bookings s ! n"
  using createBooking_store [of is_email e d s] insert_booking_cases [of "uuid e" d s]
  by (auto simp: nth_append)

lemma createBooking_length:
  "length (bookings s) \<le> length (bookings (snd (createBooking is_email e d s)))"
  using createBooking_store [of is_email e d s] insert_booking_cases [of "uuid e" d s]
  by auto

lemma step_nth:
  "n < length (bookings s) \<Longrightarrow>
   n < length (bookings (step opn s)) \<and> bookings (step opn s) ! n = bookings s ! n"
proof (cases opn)
  case (Claim is_email e d)
  assume "n < length (bookings s)"
  then show ?thesis
    using Claim createBooking_nth [of n s is_email e d] createBooking_length [of s is_email e d]
    by simp
next
  case (Lookup fault i tok)
  assume "n < length (bookings s)"
  then show ?thesis using Lookup by simp
next
  case (Release fault i tok)
  assume "n < length (bookings s)"
  then show ?thesis using Release by (simp add: cancelBooking_store)
qed

lemma run_nth:
  "n < length (bookings s) \<Longrightarrow>
   n < length (bookings (run ops s)) \<and> bookings (run ops s) ! n = bookings s ! n"
proof (induction ops arbitrary: s)
  case Nil
  then show ?case by simp
next
  case (Cons opn ops)
  have 1: "n < length (bookings (step opn s)) \<and> bookings (step opn s) ! n = bookings s ! n"
    using Cons.prems by (rule step_nth)
  then have "n < length (bookings (run ops (step opn s))) \<and>
             bookings (run ops (step opn s)) ! n = bookings (step opn s) ! n"
    using Cons.IH [of "step opn s"] by simp
  then show ?case using 1 by simp
qed

section \<open>Release\<close>



text \<open>
  Claim C3 as stated fails. The release of a booking that is already cancelled reports
  success, and so does a release with the identifier of a stored booking and a foreign
  credential, and one with an identifier that no booking has, where the lookup of the
  same pair answers \<open>None\<close>.
\<close>

theorem release_reports_success_counterexample:
  "b_status (hd (bookings cancelled_db)) = Cancelled \<and>
   fst (cancelBooking None 1 token1 cancelled_db) = True \<and>
   getBooking None 1 token2 booked_db = None \<and>
   fst (cancelBooking None 1 token2 booked_db) = True \<and>
   getBooking None 7 token2 booked_db = None \<and>
   fst (cancelBooking None 7 token2 booked_db) = True"
proof -
  have 1: "getBooking None 1 token2 booked_db = None"
    using getBooking_Some [of None 1 token2 booked_db]
    by (cases "getBooking None 1 token2 booked_db")
       (simp_all add: booked_db_bookings new_booking_row_def credential_of_def
          uuid_in_token1 uuid_in_token2)
  have 2: "getBooking None 7 token2 booked_db = None"
    by (rule getBooking_absent_id) (simp add: booked_db_bookings new_booking_row_def)
  show ?thesis
    using 1 2
    by (simp add: cancelBooking_answer in_bigint_def uuid_in_token1 uuid_in_token2
        cancelled_db_bookings)
qed

text \<open>
  Claim C3, amended. A release whose identifier and credential match no stored booking
  changes no booking. A release whose pair matches a stored booking reports success
  when the storage call does not fail, whatever the status of the booking. When the
  storage call fails, for want of a connection or because the statement is rejected,
  the credential not being a UUID or the identifier not a \<open>BIGINT\<close>, the release
  reports failure and the store is unchanged.
\<close>

theorem release_outcomes:
  "(filter (\<lambda>b. b_id b = i \<and> credential_of b tok) (bookings s) = [] \<longrightarrow>
      bookings (snd (cancelBooking fault i tok s)) = bookings s) \<and>
   (b \<in> set (bookings s) \<and> b_id b = j \<and> in_bigint j \<and> credential_of b tok' \<longrightarrow>
      fst (cancelBooking None j tok' s) = True) \<and>
   cancelBooking (Some err) k tok'' s = (False, s) \<and>
   (\<not> in_bigint k' \<or> uuid_in tok3 = None \<longrightarrow> cancelBooking fault' k' tok3 s = (False, s))"
  by (auto simp: cancelBooking_eq credential_of_def)

text \<open>
  The cancelled booking of the example: a foreign pair, its own pair, a call without
  connection, a credential that is not a UUID.
\<close>

theorem release_outcomes_witness:
  "filter (\<lambda>b. b_id b = 7 \<and> credential_of b token2) (bookings cancelled_db) = [] \<and>
   bookings (snd (cancelBooking None 7 token2 cancelled_db)) = bookings cancelled_db \<and>
   hd (bookings cancelled_db) \<in> set (bookings cancelled_db) \<and>
   b_status (hd (bookings cancelled_db)) = Cancelled \<and>
   fst (cancelBooking None 1 token1 cancelled_db) = True \<and>
   cancelBooking (Some (PgError [] ''TypeError: Failed to fetch'')) 1 token1 cancelled_db =
     (False, cancelled_db) \<and>
   uuid_in ''cancel-k3x9q2m1z'' = None \<and>
   cancelBooking None 1 ''cancel-k3x9q2m1z'' cancelled_db = (False, cancelled_db)"
proof -
  have n: "filter (\<lambda>b. b_id b = 7 \<and> credential_of b token2) (bookings cancelled_db) = []"
    by (simp add: cancelled_db_bookings new_booking_row_def)
  have m: "hd (bookings cancelled_db) \<in> set (bookings cancelled_db) \<and>
           b_id (hd (bookings cancelled_db)) = 1 \<and> in_bigint 1 \<and>
           credential_of (hd (bookings cancelled_db)) token1 \<and>
           b_status (hd (bookings cancelled_db)) = Cancelled"
    by (simp add: cancelled_db_bookings new_booking_row_def credential_of_def in_bigint_def
        uuid_in_token1)
  show ?thesis
    using n m uuid_in_mock_token
      release_outcomes [of 7 token2 cancelled_db None "hd (bookings cancelled_db)" 1 token1
        "PgError [] ''TypeError: Failed to fetch''" 1 token1 1 "''cancel-k3x9q2m1z''" None]
    by simp
qed

section \<open>The status of a booking over time\<close>

text \<open>
  Claim C6. A booking that is cancelled or completed stays in its place with all its
  columns, and so with its status, through every run of claims, lookups and releases;
  in particular a release, whatever its identifier and credential, leaves it as it
  is, and so does a claim.
\<close>

theorem terminal_status_kept:
  "n < length (bookings s) \<and>
   (b_status (bookings s ! n) = Cancelled \<or> b_status (bookings s ! n) = Completed) \<Longrightarrow>
     n < length (bookings (run ops s)) \<and>
     bookings (run ops s) ! n = bookings s ! n \<and>
     b_status (bookings (run ops s) ! n) = b_status (bookings s ! n) \<and>
     bookings (snd (cancelBooking fault i tok s)) ! n = bookings s ! n \<and>
     bookings (snd (createBooking is_email e d s)) ! n = bookings s ! n"
  using run_nth [of n s ops] createBooking_nth [of n s is_email e d]
  by (simp add: cancelBooking_store)

text \<open>
  The completed booking of the example, released with its own pair and, after a claim
  and a lookup, once more.
\<close>

theorem terminal_status_kept_witness:
  "(0::nat) < length (bookings completed_db) \<and>
   b_status (bookings completed_db ! 0) = Completed \<and>
   fst (cancelBooking None 1 token1 completed_db) = True \<and>
   b_status (bookings (snd (cancelBooking None 1 token1 completed_db)) ! 0) = Completed \<and>
   b_status
     (bookings
        (run [Release None 1 token1, Claim has_at (direct_env token2) example_request,
              Lookup None 1 token1, Release None 1 token1_upper] completed_db) ! 0) = Completed"
proof -
  have h: "(0::nat) < length (bookings completed_db) \<and>
           (b_status (bookings completed_db ! 0) = Cancelled \<or>
            b_status (bookings completed_db ! 0) = Completed)"
    by (simp add: completed_db_bookings)
  have c: "b_status (bookings completed_db ! 0) = Completed"
    by (simp add: completed_db_bookings)
  have a: "fst (cancelBooking None 1 token1 completed_db) = True"
    by (simp add: cancelBooking_answer in_bigint_def uuid_in_token1)
  show ?thesis
    using h c a
      terminal_status_kept [OF h, of "[Release None 1 token1,
        Claim has_at (direct_env token2) example_request, Lookup None 1 token1,
        Release None 1 token1_upper]" None 1 token1 has_at "direct_env token2" example_request]
    by simp
qed

section \<open>The paths of \<open>createBooking\<close>\<close>

lemma createBooking_reaches_insert:
  "function_env e = Unreachable \<or> BookingSchema is_email d \<noteq> [] \<Longrightarrow>
   createBooking is_email e d s = createBooking_fallback e d s"
  by (auto simp: createBooking_def handler_def response_ok_def Let_def
      split: netlify.splits list.splits)

lemma createBooking_answered_by_function:
  "function_env e = Deployed n r \<Longrightarrow> BookingSchema is_email d = [] \<Longrightarrow>
   createBooking is_email e d s = (Inr \<lparr>bookingId = n, cancelToken = ''cancel-'' @ r\<rparr>, s)"
  by (simp add: createBooking_def handler_def response_ok_def Let_def)

lemma createBooking_fallback_status:
  "fst (createBooking_fallback e d s) = Inl err \<Longrightarrow> status err = 400"
  by (auto simp: createBooking_fallback_def new_ApiError_def
      split: option.splits prod.splits sum.splits if_splits)

lemma createBooking_status:
  "fst (createBooking is_email e d s) = Inl err \<Longrightarrow> status err = 400"
proof (cases "function_env e = Unreachable \<or> BookingSchema is_email d \<noteq> []")
  case True
  assume "fst (createBooking is_email e d s) = Inl err"
  then show ?thesis
    using createBooking_reaches_insert [OF True, of s] createBooking_fallback_status [of e d s err]
    by simp
next
  case False
  assume a: "fst (createBooking is_email e d s) = Inl err"
  from False obtain n r where "function_env e = Deployed n r" and "BookingSchema is_email d = []"
    by (cases "function_env e") auto
  then show ?thesis
    using a createBooking_answered_by_function [of e n r is_email d s] by simp
qed

lemma createBooking_fallback_rejected:
  "db_fault e = None \<Longrightarrow> fst (insert_booking (uuid e) d s) = Inl err \<Longrightarrow>
   fst (createBooking_fallback e d s) =
     Inl \<lparr>message = (if pg_code err = ''23505'' then slot_taken_message else pg_message err),
          status = 400\<rparr>"
  by (cases "insert_booking (uuid e) d s")
     (simp add: createBooking_fallback_def new_ApiError_def)

lemma insert_booking_conflict:
  "timeslotId d \<in> set (map b_timeslot_id (bookings s)) \<Longrightarrow>
   pg_code (projl (fst (insert_booking u d s))) = ''23505'' \<and> isl (fst (insert_booking u d s)) \<and>
   bookings (snd (insert_booking u d s)) = bookings s"
  by (simp add: insert_booking_def unique_violation_def Let_def)

section \<open>Claiming a released timeslot\<close>

text \<open>
  Claim C2 fails on the code. The booking of the example is cancelled, so no booking
  holds its timeslot; a claim of that timeslot through the insert is rejected by
  \<open>UNIQUE(timeslot_id)\<close>, which counts the cancelled booking too, and is reported as
  already booked. Answered by the deployed function the claim reports success, and
  no booking is created either. The release of the client reports success and, run by
  the anonymous role, leaves the booking as it was; the claim that follows it is
  rejected in the same way.
\<close>

theorem reclaim_after_release_is_rejected:
  "map b_status (bookings cancelled_db) = [Cancelled] \<and>
   filter holds_slot (bookings cancelled_db) = [] \<and>
   fst (createBooking has_at (direct_env token2) example_request cancelled_db) =
     Inl \<lparr>message = slot_taken_message, status = 400\<rparr> \<and>
   bookings (snd (createBooking has_at (direct_env token2) example_request cancelled_db)) =
     bookings cancelled_db \<and>
   bookings (snd (createBooking has_at (deployed_env token2) example_request cancelled_db)) =
     bookings cancelled_db \<and>
   fst (cancelBooking None 1 token1 booked_db) = True \<and>
   fst (createBooking has_at (direct_env token2) example_request
          (snd (cancelBooking None 1 token1 booked_db))) =
     Inl \<lparr>message = slot_taken_message, status = 400\<rparr>"
  by (simp add: createBooking_def createBooking_fallback_def insert_booking_def direct_env_def
      deployed_env_def handler_def BookingSchema_def response_ok_def has_at_def
      cancelled_db_eq booked_db_eq example_db_def new_booking_row_def example_request_def
      holds_slot_def unique_violation_def new_ApiError_def Let_def
      cancelBooking_eq in_bigint_def uuid_in_token1)

section \<open>Success and the stored booking\<close>

text \<open>
  Claim C7 fails on the code. With the serverless function deployed, a valid request is
  answered by the handler's mock response: \<open>createBooking\<close> returns the random
  identifier and token, the store is unchanged and holds no booking, and the lookup of
  the returned pair finds nothing.
\<close>

theorem success_without_stored_booking:
  "BookingSchema has_at example_request = [] \<and>
   createBooking has_at (deployed_env token1) example_request example_db =
     (Inr \<lparr>bookingId = 4242, cancelToken = ''cancel-k3x9q2m1z''\<rparr>, example_db) \<and>
   bookings example_db = [] \<and>
   getBooking None 4242 ''cancel-k3x9q2m1z'' example_db = None"
  by (simp add: createBooking_def handler_def BookingSchema_def response_ok_def deployed_env_def
      example_request_def example_db_def has_at_def getBooking_def select_bookings_def
      bigint_in_def in_bigint_def uuid_in_mock_token Let_def)

section \<open>Invalid requests\<close>

text \<open>
  Claim C9 fails on the code. The handler rejects a one-character name with status 400
  and the issue \<open>customerName\<close>, and the address \<open>not-an-email\<close> with the issue
  \<open>customerEmail\<close>; \<open>createBooking\<close> takes the rejection for an unavailable function,
  inserts the request as it is and returns success. Without the function the request
  is inserted unvalidated. A name of 101 characters passes the schema of the form, is
  rejected by the handler and is stored.
\<close>

theorem invalid_request_is_stored:
  "BookingSchema has_at short_name_request = [''customerName''] \<and>
   handler has_at 4242 ''k3x9q2m1z'' \<lparr>httpMethod = ''POST'', event_body = short_name_request\<rparr> =
     \<lparr>statusCode = 400, body = InvalidBody ''Invalid data'' [''customerName'']\<rparr> \<and>
   fst (createBooking has_at (deployed_env token1) short_name_request example_db) =
     Inr \<lparr>bookingId = 1, cancelToken = token1\<rparr> \<and>
   map b_customer_name
     (bookings (snd (createBooking has_at (deployed_env token1) short_name_request example_db))) =
     [''A''] \<and>
   BookingSchema has_at bad_email_request = [''customerEmail''] \<and>
   fst (createBooking has_at (deployed_env token1) bad_email_request example_db) =
     Inr \<lparr>bookingId = 1, cancelToken = token1\<rparr> \<and>
   map b_customer_email
     (bookings (snd (createBooking has_at (deployed_env token1) bad_email_request example_db))) =
     [''not-an-email''] \<and>
   map b_customer_name
     (bookings (snd (createBooking has_at (direct_env token1) short_name_request example_db))) =
     [''A''] \<and>
   bookingFormSchema has_at long_name_request = [] \<and>
   BookingSchema has_at long_name_request = [''customerName''] \<and>
   length (bookings (snd (createBooking has_at (deployed_env token1) long_name_request example_db))) = 1"
  by (simp add: createBooking_def createBooking_fallback_def handler_def BookingSchema_def
      bookingFormSchema_def response_ok_def deployed_env_def direct_env_def insert_booking_def
      new_booking_row_def short_name_request_def bad_email_request_def long_name_request_def
      example_request_def example_db_def has_at_def Let_def)

section \<open>The error of a slot conflict\<close>

text \<open>
  Claim C8 as stated fails. A claim rejected by \<open>UNIQUE(timeslot_id)\<close>, a claim rejected
  by a foreign key and a claim that does not reach the storage all fail with status
  400: the three errors differ in their message only.
\<close>

theorem slot_conflict_status_counterexample:
  "fst (createBooking has_at (direct_env token2) example_request booked_db) =
     Inl \<lparr>message = slot_taken_message, status = 400\<rparr> \<and>
   fst (createBooking has_at (direct_env token2) other_slot_request booked_db) =
     Inl \<lparr>message = pg_message (foreign_key_violation ''bookings_timeslot_id_fkey''), status = 400\<rparr> \<and>
   fst (createBooking has_at offline_env example_request booked_db) =
     Inl \<lparr>message = ''TypeError: Failed to fetch'', status = 400\<rparr>"
  by (simp add: createBooking_def createBooking_fallback_def insert_booking_def direct_env_def
      offline_env_def other_slot_request_def
      booked_db_eq example_db_def new_booking_row_def example_request_def
      unique_violation_def foreign_key_violation_def new_ApiError_def Let_def)

text \<open>
  Claim C8, amended. When a claim reaches the insert and the insert is rejected,
  \<open>createBooking\<close> fails with the fixed slot-taken message if the code of the
  rejection is 23505, that of a unique violation, and with the message of the storage
  otherwise; a timeslot that a booking references already is rejected with that code.
  Every error of \<open>createBooking\<close> has status 400.
\<close>

theorem slot_conflict_is_told_by_message:
  "(function_env e = Unreachable \<or> BookingSchema is_email d \<noteq> []) \<and> db_fault e = None \<and>
   fst (insert_booking (uuid e) d s) = Inl err \<Longrightarrow>
     fst (createBooking is_email e d s) =
       Inl \<lparr>message = (if pg_code err = ''23505'' then slot_taken_message else pg_message err),
            status = 400\<rparr> \<and>
     (timeslotId d \<in> set (map b_timeslot_id (bookings s)) \<longrightarrow> pg_code err = ''23505'') \<and>
     (fst (createBooking is_email' e' d' s') = Inl err' \<longrightarrow> status err' = 400)"
proof -
  assume a: "(function_env e = Unreachable \<or> BookingSchema is_email d \<noteq> []) \<and> db_fault e = None \<and>
   fst (insert_booking (uuid e) d s) = Inl err"
  have 1: "fst (createBooking is_email e d s) =
       Inl \<lparr>message = (if pg_code err = ''23505'' then slot_taken_message else pg_message err),
            status = 400\<rparr>"
    using a createBooking_reaches_insert [of e is_email d s]
      createBooking_fallback_rejected [of e d s err]
    by simp
  have 2: "timeslotId d \<in> set (map b_timeslot_id (bookings s)) \<longrightarrow> pg_code err = ''23505''"
    using a insert_booking_conflict [of d s "uuid e"] by auto
  have 3: "fst (createBooking is_email' e' d' s') = Inl err' \<longrightarrow> status err' = 400"
    using createBooking_status [of is_email' e' d' s' err'] by simp
  show ?thesis using 1 2 3 by simp
qed

text \<open>A second claim of the booked timeslot of the example.\<close>

theorem slot_conflict_is_told_by_message_witness:
  "function_env (direct_env token2) = Unreachable \<and> db_fault (direct_env token2) = None \<and>
   fst (insert_booking (uuid (direct_env token2)) example_request booked_db) =
     Inl (unique_violation ''bookings_timeslot_id_key'') \<and>
   timeslotId example_request \<in> set (map b_timeslot_id (bookings booked_db)) \<and>
   fst (createBooking has_at (direct_env token2) example_request booked_db) =
     Inl \<lparr>message = slot_taken_message, status = 400\<rparr>"
proof -
  have h: "(function_env (direct_env token2) = Unreachable \<or>
            BookingSchema has_at example_request \<noteq> []) \<and>
           db_fault (direct_env token2) = None \<and>
           fst (insert_booking (uuid (direct_env token2)) example_request booked_db) =
             Inl (unique_violation ''bookings_timeslot_id_key'')"
    by (simp add: direct_env_def insert_booking_def booked_db_eq example_db_def
        example_request_def new_booking_row_def Let_def)
  have t: "timeslotId example_request \<in> set (map b_timeslot_id (bookings booked_db))"
    by (simp add: booked_db_eq example_request_def new_booking_row_def)
  have c: "pg_code (unique_violation ''bookings_timeslot_id_key'') = ''23505''"
    by (simp add: unique_violation_def)
  show ?thesis
    using h t c slot_conflict_is_told_by_message
      [OF h, where is_email' = has_at and e' = "direct_env token2" and d' = example_request
         and s' = booked_db and err' = "\<lparr>message = slot_taken_message, status = 400\<rparr>"]
    by (simp add: direct_env_def)
qed

section \<open>The generator run twice\<close>

declare loop_keys.simps [simp del] slot_loop.simps [simp del]

lemma adds_skip: "adds (\<lambda>s. (None, s)) {}"
  by (simp add: adds_def fresh_rows_def)

lemma adds_comp:
  assumes f: "adds f G" and g: "adds g H"
  shows "adds (and_then f g) (G \<union> H)"
  unfolding adds_def
proof (intro allI impI)
  fix s
  assume pre: "identities_given s \<and> fst ` (G \<union> H) \<subseteq> set (map st_id (staff s))"
  obtain s1 where s1: "f s = (None, s1)"
    using f pre by (cases "f s") (auto simp: adds_def image_Un)
  have fs: "identities_given s1 \<and> staff s1 = staff s \<and>
      set (slot_keys s1) = set (slot_keys s) \<union> G \<and>
      slot_content s1 = slot_content s \<union> fresh_rows (G - set (slot_keys s)) \<and>
      (no_duplicate_slots s \<longrightarrow> no_duplicate_slots s1) \<and>
      (G \<subseteq> set (slot_keys s) \<longrightarrow> timeslots s1 = timeslots s)"
    using f pre s1 unfolding adds_def image_Un
    by (metis Un_subset_iff snd_conv)
  have pre1: "identities_given s1 \<and> fst ` H \<subseteq> set (map st_id (staff s1))"
    using fs pre by (simp add: image_Un)
  have a: "and_then f g s = g s1"
    using s1 by (simp add: and_then_def)
  have gs: "fst (g s1) = None \<and> identities_given (snd (g s1)) \<and> staff (snd (g s1)) = staff s1 \<and>
      set (slot_keys (snd (g s1))) = set (slot_keys s1) \<union> H \<and>
      slot_content (snd (g s1)) = slot_content s1 \<union> fresh_rows (H - set (slot_keys s1)) \<and>
      (no_duplicate_slots s1 \<longrightarrow> no_duplicate_slots (snd (g s1))) \<and>
      (H \<subseteq> set (slot_keys s1) \<longrightarrow> timeslots (snd (g s1)) = timeslots s1)"
    using g pre1 unfolding adds_def by blast
  have c: "slot_content (snd (g s1)) =
        slot_content s \<union> fresh_rows (G \<union> H - set (slot_keys s))"
  proof -
    have "slot_content (snd (g s1)) =
        slot_content s \<union> fresh_rows (G - set (slot_keys s)) \<union>
          fresh_rows (H - (set (slot_keys s) \<union> G))"
      using fs gs by simp
    also have "\<dots> = slot_content s \<union>
        fresh_rows ((G - set (slot_keys s)) \<union> (H - (set (slot_keys s) \<union> G)))"
      by (simp add: fresh_rows_def image_Un Un_assoc)
    also have "(G - set (slot_keys s)) \<union> (H - (set (slot_keys s) \<union> G)) = (G \<union> H) - set (slot_keys s)"
      by blast
    finally show ?thesis .
  qed
  have u: "G \<union> H \<subseteq> set (slot_keys s) \<longrightarrow> timeslots (snd (g s1)) = timeslots s"
  proof
    assume k: "G \<union> H \<subseteq> set (slot_keys s)"
    then have 1: "timeslots s1 = timeslots s"
      using fs by simp
    then have "slot_keys s1 = slot_keys s"
      by (simp add: slot_keys_def)
    then have "H \<subseteq> set (slot_keys s1)"
      using k by simp
    then show "timeslots (snd (g s1)) = timeslots s"
      using gs 1 by simp
  qed
  have k: "set (slot_keys (snd (g s1))) = set (slot_keys s) \<union> (G \<union> H)"
    using fs gs by auto
  show "fst (and_then f g s) = None \<and>
        identities_given (snd (and_then f g s)) \<and>
        staff (snd (and_then f g s)) = staff s \<and>
        set (slot_keys (snd (and_then f g s))) = set (slot_keys s) \<union> (G \<union> H) \<and>
        slot_content (snd (and_then f g s)) =
          slot_content s \<union> fresh_rows (G \<union> H - set (slot_keys s)) \<and>
        (no_duplicate_slots s \<longrightarrow> no_duplicate_slots (snd (and_then f g s))) \<and>
        (G \<union> H \<subseteq> set (slot_keys s) \<longrightarrow> timeslots (snd (and_then f g s)) = timeslots s)"
    using a fs gs c u k by simp
qed

lemma adds_insert_timeslot:
  "adds (insert_timeslot staff_id slot_time (slot_time + 30)) {(staff_id, slot_time)}"
  unfolding adds_def
proof (intro allI impI)
  fix s
  assume pre: "identities_given s \<and> fst ` {(staff_id, slot_time)} \<subseteq> set (map st_id (staff s))"
  let ?r = "insert_timeslot staff_id slot_time (slot_time + 30) s"
  have st: "staff (snd ?r) = staff s"
    by (simp add: insert_timeslot_def Let_def)
  show "fst ?r = None \<and> identities_given (snd ?r) \<and> staff (snd ?r) = staff s \<and>
        set (slot_keys (snd ?r)) = set (slot_keys s) \<union> {(staff_id, slot_time)} \<and>
        slot_content (snd ?r) =
          slot_content s \<union> fresh_rows ({(staff_id, slot_time)} - set (slot_keys s)) \<and>
        (no_duplicate_slots s \<longrightarrow> no_duplicate_slots (snd ?r)) \<and>
        ({(staff_id, slot_time)} \<subseteq> set (slot_keys s) \<longrightarrow> timeslots (snd ?r) = timeslots s)"
  proof (cases "(staff_id, slot_time) \<in> set (slot_keys s)")
    case True
    then have r: "?r = (None, s\<lparr>timeslots_id_seq := timeslots_id_seq s + 1\<rparr>)"
      by (simp add: insert_timeslot_def slot_keys_def Let_def)
    have i: "identities_given (s\<lparr>timeslots_id_seq := timeslots_id_seq s + 1\<rparr>)"
      using pre by (auto simp: identities_given_def list_all_iff)
    have d: "{(staff_id, slot_time)} - set (slot_keys s) = {}"
      using True by blast
    show ?thesis
      using True i d unfolding r
      by (simp add: slot_keys_def slot_content_def no_duplicate_slots_def fresh_rows_def
          insert_absorb)
  next
    case False
    have fresh: "timeslots_id_seq s + 1 \<notin> set (map t_id (timeslots s))"
      using pre by (auto simp: identities_given_def list_all_iff)
    have known: "staff_id \<in> set (map st_id (staff s))"
      using pre by simp
    have r: "?r = (None, s\<lparr>timeslots_id_seq := timeslots_id_seq s + 1,
        timeslots := timeslots s @ [\<lparr>t_id = timeslots_id_seq s + 1, t_staff_id = staff_id,
          t_start_ts = slot_time, t_end_ts = slot_time + 30, t_is_blocked = False\<rparr>]\<rparr>)"
      using False fresh known by (simp add: insert_timeslot_def slot_keys_def Let_def)
    have i: "identities_given (snd ?r)"
      using pre unfolding r by (auto simp: identities_given_def list_all_iff)
    have d: "{(staff_id, slot_time)} - set (slot_keys s) = {(staff_id, slot_time)}"
      using False by blast
    show ?thesis
      using False i d unfolding r
      by (simp add: slot_keys_def slot_content_def no_duplicate_slots_def fresh_rows_def)
  qed
qed

lemma adds_slot_loop: "adds (slot_loop staff_id day_end slot_time) (loop_keys staff_id day_end slot_time)"
proof (induction staff_id day_end slot_time rule: loop_keys.induct)
  case (1 staff_id day_end slot_time)
  show ?case
  proof (cases "slot_time < day_end")
    case True
    have "adds (and_then (insert_timeslot staff_id slot_time (slot_time + 30))
                  (slot_loop staff_id day_end (slot_time + 30)))
            ({(staff_id, slot_time)} \<union> loop_keys staff_id day_end (slot_time + 30))"
      using adds_insert_timeslot "1" [OF True] by (rule adds_comp)
    moreover have "slot_loop staff_id day_end slot_time =
        and_then (insert_timeslot staff_id slot_time (slot_time + 30))
          (slot_loop staff_id day_end (slot_time + 30))"
      using True by (simp add: fun_eq_iff and_then_def slot_loop.simps [of staff_id day_end slot_time])
    moreover have "loop_keys staff_id day_end slot_time =
        {(staff_id, slot_time)} \<union> loop_keys staff_id day_end (slot_time + 30)"
      using True by (simp add: loop_keys.simps [of staff_id day_end slot_time])
    ultimately show ?thesis by simp
  next
    case False
    then have "slot_loop staff_id day_end slot_time = (\<lambda>s. (None, s))"
      by (simp add: fun_eq_iff slot_loop.simps [of staff_id day_end slot_time])
    moreover have "loop_keys staff_id day_end slot_time = {}"
      using False by (simp add: loop_keys.simps [of staff_id day_end slot_time])
    ultimately show ?thesis by (simp add: adds_skip)
  qed
qed

lemma adds_generate_day: "adds (generate_day staff_id the_date) (day_keys staff_id the_date)"
proof (cases "dow the_date \<noteq> 0 \<and> dow the_date \<noteq> 6")
  case True
  then have "generate_day staff_id the_date =
      slot_loop staff_id (the_date * 1440 + 17 * 60) (the_date * 1440 + 9 * 60)"
    by (simp add: fun_eq_iff generate_day_def)
  then show ?thesis
    using True adds_slot_loop [of staff_id "the_date * 1440 + 17 * 60" "the_date * 1440 + 9 * 60"]
    by (simp add: day_keys_def)
next
  case False
  then have "generate_day staff_id the_date = (\<lambda>s. (None, s))"
    by (auto simp: fun_eq_iff generate_day_def)
  then show ?thesis
    using False by (auto simp: day_keys_def adds_skip)
qed

lemma adds_days_loop: "adds (days_loop staff_id ds) (\<Union>d \<in> set ds. day_keys staff_id d)"
proof (induction ds)
  case Nil
  have "days_loop staff_id [] = (\<lambda>s. (None, s))" by (simp add: fun_eq_iff)
  then show ?case by (simp add: adds_skip)
next
  case (Cons d ds)
  have "adds (and_then (generate_day staff_id d) (days_loop staff_id ds))
          (day_keys staff_id d \<union> (\<Union>d \<in> set ds. day_keys staff_id d))"
    using adds_generate_day Cons.IH by (rule adds_comp)
  moreover have "days_loop staff_id (d # ds) =
      and_then (generate_day staff_id d) (days_loop staff_id ds)"
    by (simp add: fun_eq_iff and_then_def)
  ultimately show ?case by simp
qed

lemma adds_generate_slots: "adds (generate_slots ids ds) (generated_keys ids ds)"
proof (induction ids)
  case Nil
  have "generate_slots [] ds = (\<lambda>s. (None, s))" by (simp add: fun_eq_iff)
  then show ?case by (simp add: adds_skip generated_keys_def)
next
  case (Cons a ids)
  have "adds (and_then (days_loop a ds) (generate_slots ids ds))
          ((\<Union>d \<in> set ds. day_keys a d) \<union> generated_keys ids ds)"
    using adds_days_loop Cons.IH by (rule adds_comp)
  moreover have "generate_slots (a # ids) ds = and_then (days_loop a ds) (generate_slots ids ds)"
    by (simp add: fun_eq_iff and_then_def)
  moreover have "generated_keys (a # ids) ds = (\<Union>d \<in> set ds. day_keys a d) \<union> generated_keys ids ds"
    by (simp add: generated_keys_def)
  ultimately show ?case by simp
qed

lemma loop_keys_staff: "fst ` loop_keys staff_id day_end slot_time \<subseteq> {staff_id}"
proof (induction staff_id day_end slot_time rule: loop_keys.induct)
  case (1 staff_id day_end slot_time)
  show ?case
  proof (cases "slot_time < day_end")
    case True
    then show ?thesis
      using "1" [OF True] by (simp add: loop_keys.simps [of staff_id day_end slot_time])
  next
    case False
    then show ?thesis by (simp add: loop_keys.simps [of staff_id day_end slot_time])
  qed
qed

lemma generated_keys_staff: "fst ` generated_keys ids ds \<subseteq> set ids"
  using loop_keys_staff by (fastforce simp: generated_keys_def day_keys_def split: if_splits)

lemma generated_keys_union:
  "set ds = set d1 \<union> set d2 \<Longrightarrow> generated_keys ids ds = generated_keys ids d1 \<union> generated_keys ids d2"
  by (auto simp: generated_keys_def)

lemma generated_keys_mono:
  "set d2 \<subseteq> set d1 \<Longrightarrow> generated_keys ids d2 \<subseteq> generated_keys ids d1"
  by (auto simp: generated_keys_def)

lemma generate_slots_run:
  assumes "identities_given s" "staff_stored ids s"
  shows "fst (generate_slots ids ds s) = None"
    and "identities_given (snd (generate_slots ids ds s))"
    and "staff (snd (generate_slots ids ds s)) = staff s"
    and "set (slot_keys (snd (generate_slots ids ds s))) = set (slot_keys s) \<union> generated_keys ids ds"
    and "slot_content (snd (generate_slots ids ds s)) =
           slot_content s \<union> fresh_rows (generated_keys ids ds - set (slot_keys s))"
    and "no_duplicate_slots s \<Longrightarrow> no_duplicate_slots (snd (generate_slots ids ds s))"
    and "generated_keys ids ds \<subseteq> set (slot_keys s) \<Longrightarrow>
           timeslots (snd (generate_slots ids ds s)) = timeslots s"
proof -
  have "set ids \<subseteq> set (map st_id (staff s))"
    using assms(2) by (auto simp: staff_stored_def list_all_iff)
  then have pre: "identities_given s \<and> fst ` generated_keys ids ds \<subseteq> set (map st_id (staff s))"
    using assms(1) generated_keys_staff [of ids ds] by blast
  have all: "fst (generate_slots ids ds s) = None \<and>
      identities_given (snd (generate_slots ids ds s)) \<and>
      staff (snd (generate_slots ids ds s)) = staff s \<and>
      set (slot_keys (snd (generate_slots ids ds s))) = set (slot_keys s) \<union> generated_keys ids ds \<and>
      slot_content (snd (generate_slots ids ds s)) =
        slot_content s \<union> fresh_rows (generated_keys ids ds - set (slot_keys s)) \<and>
      (no_duplicate_slots s \<longrightarrow> no_duplicate_slots (snd (generate_slots ids ds s))) \<and>
      (generated_keys ids ds \<subseteq> set (slot_keys s) \<longrightarrow>
         timeslots (snd (generate_slots ids ds s)) = timeslots s)"
    using adds_generate_slots [of ids ds] pre unfolding adds_def by blast
  show "fst (generate_slots ids ds s) = None" using all by simp
  show "identities_given (snd (generate_slots ids ds s))" using all by simp
  show "staff (snd (generate_slots ids ds s)) = staff s" using all by simp
  show "set (slot_keys (snd (generate_slots ids ds s))) = set (slot_keys s) \<union> generated_keys ids ds"
    using all by simp
  show "slot_content (snd (generate_slots ids ds s)) =
           slot_content s \<union> fresh_rows (generated_keys ids ds - set (slot_keys s))"
    using all by simp
  show "no_duplicate_slots s \<Longrightarrow> no_duplicate_slots (snd (generate_slots ids ds s))"
    using all by simp
  show "generated_keys ids ds \<subseteq> set (slot_keys s) \<Longrightarrow>
           timeslots (snd (generate_slots ids ds s)) = timeslots s"
    using all by simp
qed

lemma staff_stored_after:
  "staff s' = staff s \<Longrightarrow> staff_stored ids s \<Longrightarrow> staff_stored ids s'"
  by (simp add: staff_stored_def)

lemma generate_twice:
  assumes i: "identities_given s" and k: "staff_stored ids s" and u: "set ds = set d1 \<union> set d2"
  shows "fst (generate_slots ids d2 (snd (generate_slots ids d1 s))) = None"
    and "slot_content (snd (generate_slots ids d2 (snd (generate_slots ids d1 s)))) =
         slot_content (snd (generate_slots ids ds s))"
    and "no_duplicate_slots s \<Longrightarrow>
         no_duplicate_slots (snd (generate_slots ids d2 (snd (generate_slots ids d1 s))))"
proof -
  let ?s1 = "snd (generate_slots ids d1 s)"
  have i1: "identities_given ?s1"
    using i k by (rule generate_slots_run(2))
  have k1: "staff_stored ids ?s1"
    using generate_slots_run(3) [OF i k, of d1] k by (rule staff_stored_after)
  show "fst (generate_slots ids d2 ?s1) = None"
    using i1 k1 by (rule generate_slots_run(1))
  have "slot_content (snd (generate_slots ids d2 ?s1)) =
        slot_content s \<union> fresh_rows (generated_keys ids d1 - set (slot_keys s)) \<union>
        fresh_rows (generated_keys ids d2 - (set (slot_keys s) \<union> generated_keys ids d1))"
    using generate_slots_run(5) [OF i1 k1, of d2] generate_slots_run(5) [OF i k, of d1]
      generate_slots_run(4) [OF i k, of d1]
    by simp
  also have "\<dots> = slot_content s \<union>
      fresh_rows ((generated_keys ids d1 - set (slot_keys s)) \<union>
        (generated_keys ids d2 - (set (slot_keys s) \<union> generated_keys ids d1)))"
    by (simp add: fresh_rows_def image_Un Un_assoc)
  also have "(generated_keys ids d1 - set (slot_keys s)) \<union>
        (generated_keys ids d2 - (set (slot_keys s) \<union> generated_keys ids d1)) =
      generated_keys ids ds - set (slot_keys s)"
    using generated_keys_union [OF u, of ids] by blast
  also have "slot_content s \<union> fresh_rows (generated_keys ids ds - set (slot_keys s)) =
      slot_content (snd (generate_slots ids ds s))"
    using generate_slots_run(5) [OF i k, of ds] by simp
  finally show "slot_content (snd (generate_slots ids d2 ?s1)) =
         slot_content (snd (generate_slots ids ds s))" .
  show "no_duplicate_slots s \<Longrightarrow> no_duplicate_slots (snd (generate_slots ids d2 ?s1))"
    using generate_slots_run(6) [OF i1 k1, of d2] generate_slots_run(6) [OF i k, of d1] by simp
qed

lemma generate_again_unchanged:
  assumes i: "identities_given s" and k: "staff_stored ids s" and m: "set d2 \<subseteq> set d1"
  shows "timeslots (snd (generate_slots ids d2 (snd (generate_slots ids d1 s)))) =
         timeslots (snd (generate_slots ids d1 s))"
proof -
  let ?s1 = "snd (generate_slots ids d1 s)"
  have i1: "identities_given ?s1"
    using i k by (rule generate_slots_run(2))
  have k1: "staff_stored ids ?s1"
    using generate_slots_run(3) [OF i k, of d1] k by (rule staff_stored_after)
  have "generated_keys ids d2 \<subseteq> set (slot_keys ?s1)"
    using generated_keys_mono [OF m, of ids] generate_slots_run(4) [OF i k, of d1] by auto
  then show ?thesis
    using generate_slots_run(7) [OF i1 k1, of d2] by simp
qed

lemma active_staff_stored:
  "staff_stored (map st_id (filter st_is_active (staff s))) s"
  by (auto simp: staff_stored_def list_all_iff)

lemma timeslot_generation_accepted:
  assumes "identities_given s"
  shows "timeslot_generation Accepts_block today s =
         (None, snd (generate_slots (map st_id (filter st_is_active (staff s)))
                  (map (\<lambda>i. today) [0..29]) s))"
proof -
  have "fst (generate_slots (map st_id (filter st_is_active (staff s)))
               (map (\<lambda>i. today) [0..29]) s) = None"
    using assms active_staff_stored by (rule generate_slots_run(1))
  then show ?thesis
    by (cases "generate_slots (map st_id (filter st_is_active (staff s)))
               (map (\<lambda>i. today) [0..29]) s") (simp add: timeslot_generation_def)
qed

lemma thirty_times: "set (map (\<lambda>i. today) [0..29]) = {today}"
  by (simp add: image_constant_conv)

lemma timeslot_generation_twice:
  assumes i: "identities_given s"
  shows "fst (timeslot_generation Accepts_block today' (snd (timeslot_generation Accepts_block today s))) = None"
    and "slot_content (snd (timeslot_generation Accepts_block today'
            (snd (timeslot_generation Accepts_block today s)))) =
         slot_content (snd (generate_slots (map st_id (filter st_is_active (staff s)))
            [today, today'] s))"
    and "no_duplicate_slots s \<Longrightarrow>
         no_duplicate_slots (snd (timeslot_generation Accepts_block today'
            (snd (timeslot_generation Accepts_block today s))))"
proof -
  let ?ids = "map st_id (filter st_is_active (staff s))"
  let ?s1 = "snd (generate_slots ?ids (map (\<lambda>i. today) [0..29]) s)"
  have k: "staff_stored ?ids s" by (rule active_staff_stored)
  have 1: "timeslot_generation Accepts_block today s = (None, ?s1)"
    using i by (rule timeslot_generation_accepted)
  have i1: "identities_given ?s1"
    using i k by (rule generate_slots_run(2))
  have st: "staff ?s1 = staff s"
    using i k by (rule generate_slots_run(3))
  have 2: "timeslot_generation Accepts_block today' ?s1 =
           (None, snd (generate_slots ?ids (map (\<lambda>i. today') [0..29]) ?s1))"
    using timeslot_generation_accepted [OF i1, of today'] st by simp
  have u: "set [today, today'] = set (map (\<lambda>i. today) [0..29]) \<union> set (map (\<lambda>i. today') [0..29])"
    unfolding thirty_times by auto
  show "fst (timeslot_generation Accepts_block today' (snd (timeslot_generation Accepts_block today s))) = None"
    using 1 2 by simp
  show "slot_content (snd (timeslot_generation Accepts_block today'
            (snd (timeslot_generation Accepts_block today s)))) =
         slot_content (snd (generate_slots ?ids [today, today'] s))"
    using 1 2 generate_twice(2) [OF i k u] by simp
  show "no_duplicate_slots s \<Longrightarrow>
         no_duplicate_slots (snd (timeslot_generation Accepts_block today'
            (snd (timeslot_generation Accepts_block today s))))"
    using 1 2 generate_twice(3) [OF i k u] by simp
qed

text \<open>
  Claim C10. Take a store in which no (staff, start) pair is stored twice, no identifier
  is ahead of the sequence and the staff members \<open>ids\<close> are stored. The loops of the
  generator over the dates \<open>d1\<close> and then over the dates \<open>d2\<close> end without an error,
  every insert of a stored pair being skipped; afterwards no pair is stored twice, and
  the timeslots, as staff, start, end and blocked flag, are those of one run over
  dates \<open>ds\<close> that cover \<open>d1\<close> and \<open>d2\<close> together; the identity values depend on the
  order of the inserts. A second run over the same dates leaves the table as it is.
  The \<open>DO\<close> block of the migration, where the server accepts it, generates the slots
  of the date of its run: run on two dates it ends without an error both times, stores
  no pair twice and gives the timeslots of one run of the loops over the two dates.
  Where the server rejects the block, the store is as before.
\<close>

theorem generator_is_idempotent:
  "no_duplicate_slots s \<and> identities_given s \<and> staff_stored ids s \<and> set ds = set d1 \<union> set d2 \<Longrightarrow>
     fst (generate_slots ids d1 s) = None \<and>
     fst (generate_slots ids d2 (snd (generate_slots ids d1 s))) = None \<and>
     no_duplicate_slots (snd (generate_slots ids d2 (snd (generate_slots ids d1 s)))) \<and>
     slot_content (snd (generate_slots ids d2 (snd (generate_slots ids d1 s)))) =
       slot_content (snd (generate_slots ids ds s)) \<and>
     timeslots (snd (generate_slots ids d1 (snd (generate_slots ids d1 s)))) =
       timeslots (snd (generate_slots ids d1 s)) \<and>
     fst (timeslot_generation Accepts_block today s) = None \<and>
     fst (timeslot_generation Accepts_block today'
            (snd (timeslot_generation Accepts_block today s))) = None \<and>
     no_duplicate_slots
       (snd (timeslot_generation Accepts_block today'
          (snd (timeslot_generation Accepts_block today s)))) \<and>
     slot_content
       (snd (timeslot_generation Accepts_block today'
          (snd (timeslot_generation Accepts_block today s)))) =
       slot_content
         (snd (generate_slots (map st_id (filter st_is_active (staff s))) [today, today'] s)) \<and>
     snd (timeslot_generation Rejects_block today s) = s"
proof -
  assume a: "no_duplicate_slots s \<and> identities_given s \<and> staff_stored ids s \<and>
             set ds = set d1 \<union> set d2"
  then have n: "no_duplicate_slots s" and i: "identities_given s" and k: "staff_stored ids s"
    and u: "set ds = set d1 \<union> set d2"
    by simp_all
  have 1: "fst (generate_slots ids d1 s) = None"
    using i k by (rule generate_slots_run(1))
  have 2: "fst (generate_slots ids d2 (snd (generate_slots ids d1 s))) = None"
    using i k u by (rule generate_twice(1))
  have 3: "no_duplicate_slots (snd (generate_slots ids d2 (snd (generate_slots ids d1 s))))"
    using i k u n by (rule generate_twice(3))
  have 4: "slot_content (snd (generate_slots ids d2 (snd (generate_slots ids d1 s)))) =
       slot_content (snd (generate_slots ids ds s))"
    using i k u by (rule generate_twice(2))
  have 5: "timeslots (snd (generate_slots ids d1 (snd (generate_slots ids d1 s)))) =
       timeslots (snd (generate_slots ids d1 s))"
    using i k by (rule generate_again_unchanged) simp
  have 6: "fst (timeslot_generation Accepts_block today s) = None"
    using timeslot_generation_accepted [OF i, of today] by simp
  have 7: "fst (timeslot_generation Accepts_block today'
            (snd (timeslot_generation Accepts_block today s))) = None"
    using i by (rule timeslot_generation_twice(1))
  have 8: "no_duplicate_slots
       (snd (timeslot_generation Accepts_block today'
          (snd (timeslot_generation Accepts_block today s))))"
    using i n by (rule timeslot_generation_twice(3))
  have 9: "slot_content
       (snd (timeslot_generation Accepts_block today'
          (snd (timeslot_generation Accepts_block today s)))) =
       slot_content
         (snd (generate_slots (map st_id (filter st_is_active (staff s))) [today, today'] s))"
    using i by (rule timeslot_generation_twice(2))
  have 10: "snd (timeslot_generation Rejects_block today s) = s"
    by (simp add: timeslot_generation_def)
  show ?thesis
    using 1 2 3 4 5 6 7 8 9 10 by simp
qed

text \<open>
  Staff member 1 over Thursday, then over Thursday to Saturday, with the 9:00 slot of
  Thursday stored before: sixteen slots for each of the two working days. The block
  run on Thursday and on Friday gives as many, and run on Thursday alone the sixteen
  slots of Thursday.
\<close>

theorem generator_is_idempotent_witness:
  "no_duplicate_slots example_db \<and> identities_given example_db \<and> staff_stored [1] example_db \<and>
   set [0, 1, 2] = set [0] \<union> set [0, 1, 2 :: int] \<and>
   fst (generate_slots [1] [0, 1, 2] (snd (generate_slots [1] [0] example_db))) = None \<and>
   no_duplicate_slots (snd (generate_slots [1] [0, 1, 2] (snd (generate_slots [1] [0] example_db)))) \<and>
   slot_content (snd (generate_slots [1] [0, 1, 2] (snd (generate_slots [1] [0] example_db)))) =
     slot_content (snd (generate_slots [1] [0, 1, 2] example_db)) \<and>
   length (timeslots (snd (generate_slots [1] [0, 1, 2] (snd (generate_slots [1] [0] example_db))))) = 32 \<and>
   length (timeslots (snd (timeslot_generation Accepts_block 1
      (snd (timeslot_generation Accepts_block 0 example_db))))) = 32 \<and>
   length (timeslots (snd (timeslot_generation Accepts_block 0 example_db))) = 16"
proof -
  have h: "no_duplicate_slots example_db \<and> identities_given example_db \<and>
           staff_stored [1] example_db \<and> set [0, 1, 2] = set [0] \<union> set [0, 1, 2 :: int]"
    by (auto simp: no_duplicate_slots_def slot_keys_def identities_given_def staff_stored_def
        example_db_def)
  have l: "length (timeslots (snd (generate_slots [1] [0, 1, 2] (snd (generate_slots [1] [0] example_db))))) = 32"
    by code_simp
  have b: "length (timeslots (snd (timeslot_generation Accepts_block 1
      (snd (timeslot_generation Accepts_block 0 example_db))))) = 32"
    by code_simp
  have c: "length (timeslots (snd (timeslot_generation Accepts_block 0 example_db))) = 16"
    by code_simp
  show ?thesis
    using h l b c generator_is_idempotent [OF h, of 0 1] by simp
qed

end
